theory Spec2Isabelle
  imports Main "HOL-Library.Sublist"
begin

section \<open>JavaScript values used by the services\<close>

text \<open>
  A JavaScript string is a \<^typ>\<open>string\<close>; a character outside ASCII stands as its UTF-8
  bytes. Every pattern the services search for (\<open>biz:\<close>, \<open>_\<close>, a digit) is ASCII, and an
  ASCII byte never occurs inside a multi-byte character, so prefix tests, replacements and
  the digit filter give the same text on bytes as on UTF-16 code units.
  A value of type \<open>string | undefined\<close> is a \<^typ>\<open>string option\<close>; a number that may be
  \<open>NaN\<close> is an \<^typ>\<open>int option\<close> with \<^term>\<open>None\<close> for \<open>NaN\<close>.
\<close>

type_synonym row = "string list"

definition at :: "'a list \<Rightarrow> nat \<Rightarrow> 'a option" where
  \<comment> \<open>\<open>xs[i]\<close>: \<open>undefined\<close> beyond the end of the array\<close>
  "at xs i = (if i < length xs then Some (xs ! i) else None)"

definition str_or :: "string option \<Rightarrow> string \<Rightarrow> string" where
  \<comment> \<open>\<open>x || d\<close> for a string or undefined \<open>x\<close>: the empty string is falsy\<close>
  "str_or x d = (case x of None \<Rightarrow> d | Some s \<Rightarrow> if s = [] then d else s)"

definition falsy :: "string option \<Rightarrow> bool" where
  \<comment> \<open>\<open>!x\<close> for a string or undefined\<close>
  "falsy x = (x = None \<or> x = Some [])"

definition to_string :: "string option \<Rightarrow> string" where
  \<comment> \<open>the string that \<open>Date.parse\<close> or a template literal makes of a string or undefined\<close>
  "to_string x = (case x of None \<Rightarrow> ''undefined'' | Some s \<Rightarrow> s)"

definition startsWith :: "string \<Rightarrow> string \<Rightarrow> bool" where
  "startsWith s p = (take (length p) s = p)"

fun replace_first :: "string \<Rightarrow> string \<Rightarrow> string \<Rightarrow> string" where
  \<comment> \<open>\<open>s.replace(pat, rep)\<close> with a string pattern: the first occurrence only\<close>
  "replace_first pat rep [] = (if pat = [] then rep else [])"
| "replace_first pat rep (c # cs) =
     (if take (length pat) (c # cs) = pat then rep @ drop (length pat) (c # cs)
      else c # replace_first pat rep cs)"

definition replace_underscores :: "string \<Rightarrow> string" where
  \<comment> \<open>\<open>s.replace(/_/g, ' ')\<close>\<close>
  "replace_underscores s = map (\<lambda>c. if c = CHR ''_'' then CHR 0x20 else c) s"

definition is_digit :: "char \<Rightarrow> bool" where
  "is_digit c = (c \<in> set ''0123456789'')"

definition strip_non_digits :: "string \<Rightarrow> string" where
  \<comment> \<open>\<open>s.replace(/\D/g, '')\<close>\<close>
  "strip_non_digits s = filter is_digit s"

fun join :: "string \<Rightarrow> string list \<Rightarrow> string" where
  "join sep [] = []"
| "join sep [x] = x"
| "join sep (x # y # ys) = x @ sep @ join sep (y # ys)"

fun show_nat :: "nat \<Rightarrow> string" where
  \<comment> \<open>a non-negative integer in a template literal: its decimal digits\<close>
  "show_nat n =
     (if n < 10 then [char_of (48 + n)] else show_nat (n div 10) @ [char_of (48 + n mod 10)])"

declare show_nat.simps [simp del]

definition endsWith :: "string \<Rightarrow> string \<Rightarrow> bool" where
  "endsWith s p = (length p \<le> length s \<and> drop (length s - length p) s = p)"

definition white_space :: "string list" where
  \<comment> \<open>what \<open>String.prototype.trim\<close> strips, in UTF-8: the WhiteSpace and LineTerminator code
      points U+0009 to U+000D, U+0020, U+00A0, U+1680, U+2000 to U+200A, U+2028, U+2029,
      U+202F, U+205F, U+3000 and U+FEFF\<close>
  "white_space =
     [[CHR 0x09], [CHR 0x0A], [CHR 0x0B], [CHR 0x0C], [CHR 0x0D], [CHR 0x20],
      [CHR 0xC2, CHR 0xA0], [CHR 0xE1, CHR 0x9A, CHR 0x80],
      [CHR 0xE2, CHR 0x80, CHR 0x80], [CHR 0xE2, CHR 0x80, CHR 0x81],
      [CHR 0xE2, CHR 0x80, CHR 0x82], [CHR 0xE2, CHR 0x80, CHR 0x83],
      [CHR 0xE2, CHR 0x80, CHR 0x84], [CHR 0xE2, CHR 0x80, CHR 0x85],
      [CHR 0xE2, CHR 0x80, CHR 0x86], [CHR 0xE2, CHR 0x80, CHR 0x87],
      [CHR 0xE2, CHR 0x80, CHR 0x88], [CHR 0xE2, CHR 0x80, CHR 0x89],
      [CHR 0xE2, CHR 0x80, CHR 0x8A], [CHR 0xE2, CHR 0x80, CHR 0xA8],
      [CHR 0xE2, CHR 0x80, CHR 0xA9], [CHR 0xE2, CHR 0x80, CHR 0xAF],
      [CHR 0xE2, CHR 0x81, CHR 0x9F], [CHR 0xE3, CHR 0x80, CHR 0x80],
      [CHR 0xEF, CHR 0xBB, CHR 0xBF]]"

function trim_start :: "string \<Rightarrow> string" where
  "trim_start s =
     (case find (startsWith s) white_space of
        None \<Rightarrow> s
      | Some p \<Rightarrow> trim_start (drop (length p) s))"
  by pat_completeness auto
termination
proof (relation "measure length")
  fix s p
  assume "find (startsWith s) white_space = Some p"
  then have "p \<in> set white_space" and "startsWith s p"
    by (auto simp: find_Some_iff)
  then have "p \<noteq> []" and "take (length p) s = p"
    by (auto simp: white_space_def startsWith_def)
  then have "s \<noteq> []" by auto
  with \<open>p \<noteq> []\<close> show "(drop (length p) s, s) \<in> measure length" by simp
qed simp

function trim_end :: "string \<Rightarrow> string" where
  "trim_end s =
     (case find (endsWith s) white_space of
        None \<Rightarrow> s
      | Some p \<Rightarrow> trim_end (take (length s - length p) s))"
  by pat_completeness auto
termination
proof (relation "measure length")
  fix s p
  assume "find (endsWith s) white_space = Some p"
  then have "p \<in> set white_space" and "endsWith s p"
    by (auto simp: find_Some_iff)
  then have "p \<noteq> []" and "length p \<le> length s"
    by (auto simp: white_space_def endsWith_def)
  then show "(take (length s - length p) s, s) \<in> measure length" by (cases s) auto
qed simp

declare trim_start.simps [simp del] trim_end.simps [simp del]

definition trim :: "string \<Rightarrow> string" where
  \<comment> \<open>\<open>s.trim()\<close>; the first byte of a multi-byte character never occurs inside another
      character, so what is stripped at either end are whole white-space characters\<close>
  "trim s = trim_end (trim_start s)"

definition slice :: "int \<Rightarrow> 'a list \<Rightarrow> 'a list" where
  \<comment> \<open>\<open>xs.slice(start)\<close>: a negative start counts from the end, and \<open>-0\<close> is \<open>0\<close>\<close>
  "slice start xs =
     (let len = int (length xs);
          k = (if start < 0 then max (len + start) 0 else min start len)
      in drop (nat k) xs)"

definition falsy_num :: "int option \<Rightarrow> bool" where
  \<comment> \<open>\<open>!x\<close> for a number: true of \<open>0\<close> and of \<open>NaN\<close>\<close>
  "falsy_num x = (x = None \<or> x = Some 0)"

definition js_gt :: "int option \<Rightarrow> int option \<Rightarrow> bool" where
  \<comment> \<open>\<open>a > b\<close>: false when either side is \<open>NaN\<close>\<close>
  "js_gt a b = (case a of None \<Rightarrow> False | Some x \<Rightarrow> (case b of None \<Rightarrow> False | Some y \<Rightarrow> y < x))"

section \<open>The world outside the repository\<close>

datatype js_error = TypeError string | RequestError "nat option" string

datatype log_entry = Log string | Warn string | Error string

record chat_message =
  role :: string
  content :: string

text \<open>
  A chat completion as the handler reads it: \<open>choices\<close> is the list of choices (absent
  in a malformed response), each with an optional \<open>message\<close>, which has an optional
  (nullable) \<open>content\<close>.
\<close>

datatype chat_completion = Completion (choices: "string option option list option")

record send_request =
  req_url :: string
  req_authorization :: string
  req_to :: string
  req_body :: string

text \<open>
  The world holds what the code reads and writes outside itself: the process environment,
  the clock and the two \<open>Date\<close> functions of the runtime, the spreadsheet (the tabs that
  exist, the rows of \<open>settings!A2:B\<close> and of \<open>messages!A2:E\<close>), the outcome of the coming
  requests to the spreadsheet service (\<^term>\<open>None\<close>: the request succeeds,
  \<^term>\<open>Some e\<close>: it is rejected with \<open>e\<close>; an exhausted list means success), the
  completion service and the messaging platform as functions of the request, the requests
  sent to both, and the log.
  A row is the list of its cells as the service returns them, so a row may be shorter than
  the range is wide (the service leaves trailing empty cells out); an append or update
  stores the cells it is given.
\<close>

record world =
  WHATSAPP_API_KEY :: "string option"
  WHATSAPP_API_VERSION :: "string option"
  WHATSAPP_PHONE_NUMBER_ID :: "string option"
  sheets_client :: bool
  clock :: int
  toISOString :: "int \<Rightarrow> string"
  Date_parse :: "string \<Rightarrow> int option"
  tabs :: "string list"
  settings :: "row list"
  messages :: "row list"
  faults :: "js_error option list"
  openai_create :: "chat_message list \<Rightarrow> js_error + chat_completion"
  openai_requests :: "chat_message list list"
  axios_request :: "send_request \<Rightarrow> js_error + nat"
  axios_requests :: "send_request list"
  logged :: "log_entry list"

section \<open>Asynchronous methods: state and exceptions\<close>

text \<open>
  An \<open>async\<close> method is a function from the world to its outcome and the new world;
  \<^term>\<open>Inl e\<close> is a rejection with \<open>e\<close> (an exception that leaves the method).
\<close>

type_synonym 'a io = "world \<Rightarrow> (js_error + 'a) \<times> world"

definition ret :: "'a \<Rightarrow> 'a io" where
  "ret x w = (Inr x, w)"

definition throw :: "js_error \<Rightarrow> 'a io" where
  "throw e w = (Inl e, w)"

definition bind :: "'a io \<Rightarrow> ('a \<Rightarrow> 'b io) \<Rightarrow> 'b io" where
  "bind m f w = (case m w of (Inl e, w') \<Rightarrow> (Inl e, w') | (Inr x, w') \<Rightarrow> f x w')"

definition try_catch :: "'a io \<Rightarrow> (js_error \<Rightarrow> 'a io) \<Rightarrow> 'a io" where
  "try_catch m h w = (case m w of (Inl e, w') \<Rightarrow> h e w' | (Inr x, w') \<Rightarrow> (Inr x, w'))"

definition gets :: "(world \<Rightarrow> 'a) \<Rightarrow> 'a io" where
  "gets f w = (Inr (f w), w)"

definition modify :: "(world \<Rightarrow> world) \<Rightarrow> unit io" where
  "modify f w = (Inr (), f w)"

definition logger :: "log_entry \<Rightarrow> unit io" where
  "logger e = modify (\<lambda>w. w\<lparr>logged := logged w @ [e]\<rparr>)"

section \<open>SheetsService\<close>

definition sheets_api :: "unit io" where
  \<comment> \<open>one request to the spreadsheet service\<close>
  "sheets_api w =
     (case faults w of
        [] \<Rightarrow> (Inr (), w)
      | f # fs \<Rightarrow> ((case f of None \<Rightarrow> Inr () | Some e \<Rightarrow> Inl e), w\<lparr>faults := fs\<rparr>))"

definition values_get :: "(world \<Rightarrow> row list) \<Rightarrow> row list io" where
  \<comment> \<open>\<open>spreadsheets.values.get\<close> of a range, then \<open>res.data.values || []\<close>\<close>
  "values_get rng = bind sheets_api (\<lambda>_. gets rng)"

definition getClient :: "bool io" where
  \<comment> \<open>whether \<open>getClient()\<close> gives a client (and with it a spreadsheet id)\<close>
  "getClient = gets sheets_client"

definition ensureSheetExists :: "string \<Rightarrow> unit io" where
  "ensureSheetExists title =
     bind getClient (\<lambda>sheets.
       if \<not> sheets then ret ()
       else try_catch
              (bind sheets_api (\<lambda>_. bind (gets tabs) (\<lambda>ts.
                 if title \<in> set ts then ret ()
                 else bind sheets_api (\<lambda>_. modify (\<lambda>w. w\<lparr>tabs := tabs w @ [title]\<rparr>)))))
              (\<lambda>e. logger (Error (''ensureSheetExists('' @ title @ '') failed''))))"

definition header_update :: "unit io" where
  \<comment> \<open>one of the three header writes under \<open>Promise.all\<close>: each request is issued, a
      rejection is ignored by the enclosing \<open>catch\<close>; row 1 is not part of the data rows\<close>
  "header_update = try_catch sheets_api (\<lambda>e. ret ())"

definition ensureHeaders :: "unit io" where
  "ensureHeaders =
     bind getClient (\<lambda>sheets.
       if \<not> sheets then ret ()
       else bind (ensureSheetExists ''settings'') (\<lambda>_.
            bind (ensureSheetExists ''messages'') (\<lambda>_.
            bind (ensureSheetExists ''facts'') (\<lambda>_.
            bind header_update (\<lambda>_. bind header_update (\<lambda>_. header_update))))))"

definition appendMessage :: "string \<Rightarrow> string \<Rightarrow> string \<Rightarrow> string option \<Rightarrow> unit io" where
  "appendMessage waId rl text msgId =
     bind getClient (\<lambda>sheets.
       if \<not> sheets then ret ()
       else bind ensureHeaders (\<lambda>_.
            try_catch
              (bind (gets (\<lambda>w. [toISOString w (clock w), waId, rl, text, str_or msgId []])) (\<lambda>r.
               bind sheets_api (\<lambda>_. modify (\<lambda>w. w\<lparr>messages := messages w @ [r]\<rparr>))))
              (\<lambda>e. logger (Error ''appendMessage failed''))))"

definition lookup_setting :: "string \<Rightarrow> row list \<Rightarrow> string option" where
  \<comment> \<open>the loop of \<open>getSetting\<close>: the value cell of the first row whose key cell is the key\<close>
  "lookup_setting key rows =
     (case find (\<lambda>r. at r 0 = Some key) rows of None \<Rightarrow> None | Some r \<Rightarrow> at r 1)"

definition getSetting :: "string \<Rightarrow> string option io" where
  "getSetting key =
     bind getClient (\<lambda>sheets.
       if \<not> sheets then ret None
       else try_catch
              (bind (values_get settings) (\<lambda>rows. ret (lookup_setting key rows)))
              (\<lambda>e. bind (logger (Error ''getSetting failed'')) (\<lambda>_. ret None)))"

definition resetTime_of :: "world \<Rightarrow> string option \<Rightarrow> int option" where
  \<comment> \<open>\<open>resetAt ? Date.parse(resetAt) : 0\<close>\<close>
  "resetTime_of w resetAt = (if falsy resetAt then Some 0 else Date_parse w (to_string resetAt))"

definition qualifies :: "world \<Rightarrow> string \<Rightarrow> int option \<Rightarrow> row \<Rightarrow> bool" where
  \<comment> \<open>the filter of \<open>getRecentConversation\<close>\<close>
  "qualifies w waId resetTime r =
     (at r 1 = Some waId \<and>
      (falsy_num resetTime \<or> js_gt (Date_parse w (to_string (at r 0))) resetTime))"

definition recentRows :: "world \<Rightarrow> string \<Rightarrow> int \<Rightarrow> int option \<Rightarrow> row list \<Rightarrow> row list" where
  \<comment> \<open>\<open>.filter(...).slice(-limit)\<close>\<close>
  "recentRows w waId limit resetTime rows =
     slice (- limit) (filter (qualifies w waId resetTime) rows)"

definition turn_of_row :: "row \<Rightarrow> chat_message" where
  "turn_of_row r = \<lparr>role = str_or (at r 2) ''user'', content = str_or (at r 3) []\<rparr>"

definition getRecentConversation :: "string \<Rightarrow> int \<Rightarrow> chat_message list io" where
  "getRecentConversation waId limit =
     bind getClient (\<lambda>sheets.
       if \<not> sheets then ret []
       else try_catch
              (bind (getSetting (''reset:'' @ waId)) (\<lambda>resetAt.
               bind (gets (\<lambda>w. resetTime_of w resetAt)) (\<lambda>resetTime.
               bind (values_get messages) (\<lambda>rows.
               bind (gets (\<lambda>w. recentRows w waId limit resetTime rows)) (\<lambda>sel.
                 ret (map turn_of_row sel))))))
              (\<lambda>e. bind (logger (Error ''getRecentConversation failed'')) (\<lambda>_. ret [])))"

definition hasMessage :: "string \<Rightarrow> bool io" where
  "hasMessage msgId =
     (if msgId = [] then ret False
      else bind getClient (\<lambda>sheets.
        if \<not> sheets then ret False
        else try_catch
               (bind (values_get (\<lambda>w. map (drop 4) (messages w))) (\<lambda>vals.
                  ret (list_ex (\<lambda>r. str_or (at r 0) [] = msgId) vals)))
               (\<lambda>e. bind (logger (Error ''hasMessage failed'')) (\<lambda>_. ret False))))"

fun find_index_from :: "nat \<Rightarrow> ('a \<Rightarrow> bool) \<Rightarrow> 'a list \<Rightarrow> nat option" where
  \<comment> \<open>the \<open>for\<close> loop of \<open>setSetting\<close>: the index of the first row that matches\<close>
  "find_index_from i P [] = None"
| "find_index_from i P (x # xs) = (if P x then Some i else find_index_from (Suc i) P xs)"

definition setSetting :: "string \<Rightarrow> string \<Rightarrow> unit io" where
  "setSetting key val =
     bind getClient (\<lambda>sheets.
       if \<not> sheets then ret ()
       else bind ensureHeaders (\<lambda>_.
            try_catch
              (bind (values_get settings) (\<lambda>rows.
                 case find_index_from 0 (\<lambda>r. at r 0 = Some key) rows of
                   Some i \<Rightarrow>
                     bind sheets_api (\<lambda>_.
                       modify (\<lambda>w. w\<lparr>settings := (settings w)[i := [key, val]]\<rparr>))
                 | None \<Rightarrow>
                     bind sheets_api (\<lambda>_.
                       modify (\<lambda>w. w\<lparr>settings := settings w @ [[key, val]]\<rparr>))))
              (\<lambda>e. logger (Error ''setSetting failed''))))"

text \<open>
  A \<open>Record<string, string>\<close> is an association list in insertion order: assigning to a key
  that is present replaces its value in place. (\<open>Object.entries\<close> lists keys that are array
  indices first; none of those starts with \<open>biz:\<close>, so the filter of the handler sees the
  \<open>biz:\<close> entries in insertion order either way.)
\<close>

fun record_set :: "string \<Rightarrow> string \<Rightarrow> (string \<times> string) list \<Rightarrow> (string \<times> string) list" where
  "record_set k v [] = [(k, v)]"
| "record_set k v ((k', v') # m) = (if k' = k then (k, v) # m else (k', v') # record_set k v m)"

fun settings_map :: "(string \<times> string) list \<Rightarrow> row list \<Rightarrow> (string \<times> string) list" where
  \<comment> \<open>the loop of \<open>getAllSettings\<close>\<close>
  "settings_map m [] = m"
| "settings_map m (r # rs) =
     (let k = str_or (at r 0) []; v = str_or (at r 1) []
      in settings_map (if k \<noteq> [] then record_set k v m else m) rs)"

definition getAllSettings :: "(string \<times> string) list io" where
  "getAllSettings =
     bind getClient (\<lambda>sheets.
       if \<not> sheets then ret []
       else try_catch
              (bind (values_get settings) (\<lambda>rows. ret (settings_map [] rows)))
              (\<lambda>e. bind (logger (Error ''getAllSettings failed'')) (\<lambda>_. ret [])))"

definition resetConversation :: "string \<Rightarrow> unit io" where
  "resetConversation waId =
     bind (gets (\<lambda>w. toISOString w (clock w))) (\<lambda>now. setSetting (''reset:'' @ waId) now)"

section \<open>OpenaiService\<close>

definition chat_messages :: "string \<Rightarrow> chat_message list option \<Rightarrow> chat_message list" where
  \<comment> \<open>the system instruction, then the history when there is one, then the prompt\<close>
  "chat_messages prompt history =
     \<lparr>role = ''system'',
      content = ''You are a helpful WhatsApp assistant. Keep replies short and clear.''\<rparr>
     # (case history of None \<Rightarrow> [] | Some h \<Rightarrow> if h \<noteq> [] then h else [])
     @ [\<lparr>role = ''user'', content = prompt\<rparr>]"

definition openai_chat :: "chat_message list \<Rightarrow> chat_completion io" where
  \<comment> \<open>\<open>this.openai.chat.completions.create({model, messages})\<close>\<close>
  "openai_chat msgs w = (openai_create w msgs, w\<lparr>openai_requests := openai_requests w @ [msgs]\<rparr>)"

definition first_content :: "chat_completion \<Rightarrow> string io" where
  \<comment> \<open>\<open>completion.choices[0].message?.content || 'No response'\<close>: reading \<open>[0]\<close> of
      absent choices, or \<open>.message\<close> of an absent first choice, throws a TypeError\<close>
  "first_content c =
     (case choices c of
        None \<Rightarrow> throw (TypeError ''choices is undefined'')
      | Some cs \<Rightarrow>
          (case at cs 0 of
             None \<Rightarrow> throw (TypeError ''choices[0] is undefined'')
           | Some msg \<Rightarrow> ret (str_or (case msg of None \<Rightarrow> None | Some c \<Rightarrow> c) ''No response'')))"

definition generateOpenAIResponse_try :: "string \<Rightarrow> chat_message list option \<Rightarrow> string io" where
  \<comment> \<open>the \<open>try\<close> block of \<open>generateOpenAIResponse\<close>\<close>
  "generateOpenAIResponse_try prompt history =
     bind (openai_chat (chat_messages prompt history)) first_content"

definition generateOpenAIResponse :: "string \<Rightarrow> chat_message list option \<Rightarrow> string io" where
  "generateOpenAIResponse prompt history =
     try_catch (generateOpenAIResponse_try prompt history)
       (\<lambda>e. bind (logger (Error ''OpenAI error:''))
              (\<lambda>_. ret ''Sorry, I could not process your request.''))"

section \<open>WhatsappService\<close>

definition axios :: "send_request \<Rightarrow> nat io" where
  \<comment> \<open>\<open>axios.request(config)\<close>: the request goes out; the platform answers with a status
      or the call rejects\<close>
  "axios req w = (axios_request w req, w\<lparr>axios_requests := axios_requests w @ [req]\<rparr>)"

definition request_config :: "string \<Rightarrow> string \<Rightarrow> string \<Rightarrow> string \<Rightarrow> string \<Rightarrow> send_request" where
  \<comment> \<open>\<open>config\<close>, with the fields of \<open>data\<close> that vary\<close>
  "request_config apiKey apiVersion phoneId toDigits message =
     \<lparr>req_url = ''https://graph.facebook.com/'' @ apiVersion @ ''/'' @ phoneId @ ''/messages'',
      req_authorization = ''Bearer '' @ apiKey,
      req_to = toDigits, req_body = message\<rparr>"

definition sendMessage :: "string \<Rightarrow> string \<Rightarrow> unit io" where
  \<comment> \<open>the \<open>catch\<close> of the request only writes diagnostics (one error line, at most one
      hint); they stand as one log entry\<close>
  "sendMessage to message =
     bind (gets (\<lambda>w. map_option trim (WHATSAPP_API_KEY w))) (\<lambda>apiKey.
     bind (gets (\<lambda>w. map_option trim (WHATSAPP_API_VERSION w))) (\<lambda>apiVersion.
     bind (gets (\<lambda>w. map_option trim (WHATSAPP_PHONE_NUMBER_ID w))) (\<lambda>phoneId.
       if falsy apiKey \<or> falsy apiVersion \<or> falsy phoneId
       then logger (Warn ''Missing WhatsApp API env vars. Skipping send.'')
       else
         (let toDigits = strip_non_digits to
          in if toDigits = []
             then logger (Warn ''sendMessage called with invalid recipient number'')
             else
               try_catch
                 (bind (axios (request_config (to_string apiKey) (to_string apiVersion)
                                 (to_string phoneId) toDigits message))
                    (\<lambda>status. logger (Log (''WhatsApp send ok: '' @ show_nat status))))
                 (\<lambda>error. logger (Error ''WhatsApp send failed''))))))"

definition bizEntries :: "(string \<times> string) list \<Rightarrow> string list" where
  "bizEntries settings_rec =
     map (\<lambda>(k, v). replace_underscores (replace_first ''biz:'' [] k) @ '': '' @ v)
       (filter (\<lambda>(k, v). startsWith k ''biz:'') settings_rec)"

definition bizContext :: "(string \<times> string) list \<Rightarrow> string" where
  \<comment> \<open>the dash after \<open>Business facts\<close> is U+2014, three bytes in UTF-8\<close>
  "bizContext settings_rec =
     (if bizEntries settings_rec \<noteq> []
      then ''Business facts '' @ [CHR 0xE2, CHR 0x80, CHR 0x94] @ '' ''
           @ join '' | '' (bizEntries settings_rec)
      else [])"

definition prompt_of :: "(string \<times> string) list \<Rightarrow> string \<Rightarrow> string" where
  \<comment> \<open>\<open>const prompt = bizContext ? `${bizContext}\n\nUser: ${message}` : message\<close>\<close>
  "prompt_of settings_rec message =
     (if bizContext settings_rec \<noteq> []
      then bizContext settings_rec @ [CHR 0x0A, CHR 0x0A] @ ''User: '' @ message
      else message)"

text \<open>
  The handler reaches the store and the completion client through the two services
  injected into its constructor; it is modelled over any implementation of the methods it
  calls, each of which may reject.
\<close>

record collaborators =
  sheets_hasMessage :: "string \<Rightarrow> bool io"
  sheets_appendMessage :: "string \<Rightarrow> string \<Rightarrow> string \<Rightarrow> string option \<Rightarrow> unit io"
  sheets_getRecentConversation :: "string \<Rightarrow> int \<Rightarrow> chat_message list io"
  sheets_getAllSettings :: "(string \<times> string) list io"
  openai_generateOpenAIResponse :: "string \<Rightarrow> chat_message list option \<Rightarrow> string io"

definition handleUserMessage_try :: "collaborators \<Rightarrow> string \<Rightarrow> string \<Rightarrow> string option \<Rightarrow> unit io" where
  \<comment> \<open>the \<open>try\<close> block of \<open>handleUserMessage\<close>\<close>
  "handleUserMessage_try C number message msgId =
     bind (if falsy msgId then ret False else sheets_hasMessage C (to_string msgId)) (\<lambda>dup.
       if dup then logger (Warn (''Duplicate message ignored: '' @ to_string msgId))
       else
         bind (sheets_appendMessage C number ''user'' message msgId) (\<lambda>_.
         bind (sheets_getRecentConversation C number 12) (\<lambda>history.
         bind (sheets_getAllSettings C) (\<lambda>settings_rec.
         bind (openai_generateOpenAIResponse C (prompt_of settings_rec message) (Some history)) (\<lambda>reply.
         bind (sheets_appendMessage C number ''assistant'' reply None) (\<lambda>_.
           sendMessage number reply))))))"

definition handleUserMessage :: "collaborators \<Rightarrow> string \<Rightarrow> string \<Rightarrow> string option \<Rightarrow> unit io" where
  "handleUserMessage C number message msgId =
     try_catch (handleUserMessage_try C number message msgId)
       (\<lambda>e. bind (logger (Error ''Error handling user message:''))
              (\<lambda>_. sendMessage number ''Sorry, I could not process your request.''))"

definition services :: collaborators where
  \<comment> \<open>the services of the repository, as the module wires them\<close>
  "services =
     \<lparr>sheets_hasMessage = hasMessage,
      sheets_appendMessage = appendMessage,
      sheets_getRecentConversation = getRecentConversation,
      sheets_getAllSettings = getAllSettings,
      openai_generateOpenAIResponse = generateOpenAIResponse\<rparr>"

section \<open>Predicates of the statements\<close>

definition no_throw :: "'a io \<Rightarrow> bool" where
  \<comment> \<open>the method resolves in every world: no rejection leaves it\<close>
  "no_throw m = (\<forall>w. \<exists>x w'. m w = (Inr x, w'))"

definition preserves :: "(world \<Rightarrow> 'b) \<Rightarrow> 'a io \<Rightarrow> bool" where
  \<comment> \<open>the method leaves the part \<open>f\<close> of the world as it found it\<close>
  "preserves f m = (\<forall>w. f (snd (m w)) = f w)"

definition succeeds :: "nat \<Rightarrow> world \<Rightarrow> bool" where
  \<comment> \<open>the request to the spreadsheet service after the next \<open>i\<close> ones is not rejected\<close>
  "succeeds i w = (case drop i (faults w) of Some e # _ \<Rightarrow> False | _ \<Rightarrow> True)"

definition credentials :: "world \<Rightarrow> bool" where
  \<comment> \<open>the three environment variables \<open>sendMessage\<close> needs are set and not blank\<close>
  "credentials w =
     (\<not> falsy (map_option trim (WHATSAPP_API_KEY w)) \<and>
      \<not> falsy (map_option trim (WHATSAPP_API_VERSION w)) \<and>
      \<not> falsy (map_option trim (WHATSAPP_PHONE_NUMBER_ID w)))"

definition config_of :: "world \<Rightarrow> string \<Rightarrow> string \<Rightarrow> send_request" where
  \<comment> \<open>the request \<open>sendMessage(to, message)\<close> makes in a world with credentials\<close>
  "config_of w to message =
     request_config (to_string (map_option trim (WHATSAPP_API_KEY w)))
       (to_string (map_option trim (WHATSAPP_API_VERSION w)))
       (to_string (map_option trim (WHATSAPP_PHONE_NUMBER_ID w)))
       (strip_non_digits to) message"

definition with_setting :: "string \<Rightarrow> string \<Rightarrow> row list \<Rightarrow> row list" where
  \<comment> \<open>the rows of the settings sheet after the write of \<open>setSetting(key, value)\<close>\<close>
  "with_setting key val rows =
     (case find_index_from 0 (\<lambda>r. at r 0 = Some key) rows of
        Some i \<Rightarrow> rows[i := [key, val]]
      | None \<Rightarrow> rows @ [[key, val]])"

text \<open>
  What may happen between a reset and a later read of the conversation: time passes and
  the spreadsheet service is up or down, turns are appended, messages are handled, the
  conversation is read, a conversation is reset.
\<close>

datatype event =
    Tick int "js_error option list"
  | Append string string string "string option"
  | Handle string string "string option"
  | Recent string int
  | Reset string

fun after :: "event \<Rightarrow> world \<Rightarrow> world" where
  "after (Tick c fs) w = w\<lparr>clock := c, faults := fs\<rparr>"
| "after (Append waId rl text msgId) w = snd (appendMessage waId rl text msgId w)"
| "after (Handle number message msgId) w = snd (handleUserMessage services number message msgId w)"
| "after (Recent waId limit) w = snd (getRecentConversation waId limit w)"
| "after (Reset waId) w = snd (resetConversation waId w)"

fun run_events :: "event list \<Rightarrow> world \<Rightarrow> world" where
  "run_events [] w = w"
| "run_events (e # es) w = run_events es (after e w)"

definition marker_kept :: "string \<Rightarrow> world \<Rightarrow> world \<Rightarrow> bool" where
  \<comment> \<open>the second world has the client, the \<open>Date.parse\<close> and the reset marker of the user
      that the first one has\<close>
  "marker_kept u w w' =
     (sheets_client w' = sheets_client w \<and> Date_parse w' = Date_parse w \<and>
      lookup_setting (''reset:'' @ u) (settings w') = lookup_setting (''reset:'' @ u) (settings w))"

definition ids_on_user_turns :: "world \<Rightarrow> bool" where
  \<comment> \<open>every stored row that carries a message id is a user turn\<close>
  "ids_on_user_turns w =
     list_all (\<lambda>r. str_or (at r 4) [] = [] \<or> at r 2 = Some ''user'') (messages w)"

definition keeps :: "(world \<Rightarrow> bool) \<Rightarrow> 'a io \<Rightarrow> bool" where
  \<comment> \<open>the method keeps the property \<open>P\<close> of the world\<close>
  "keeps P m = (\<forall>w. P w \<longrightarrow> P (snd (m w)))"

definition marker_written :: "world \<Rightarrow> bool" where
  \<comment> \<open>a reset in this world gets its marker into the sheet: there is a client, and the
      read of the settings and the write that follow the header check succeed\<close>
  "marker_written w =
     (sheets_client w \<and> succeeds 0 (snd (ensureHeaders w)) \<and> succeeds 1 (snd (ensureHeaders w)))"

fun later_resets_ok :: "string \<Rightarrow> int \<Rightarrow> event list \<Rightarrow> world \<Rightarrow> bool" where
  \<comment> \<open>whenever the user resets again in the run and that marker is written, the clock is not
      before \<open>T\<close>, not the instant 0, and its ISO string parses back to it\<close>
  "later_resets_ok u T [] w = True"
| "later_resets_ok u T (e # es) w =
     ((if e = Reset u \<and> marker_written w
       then T \<le> clock w \<and> clock w \<noteq> 0 \<and> toISOString w (clock w) \<noteq> [] \<and>
            Date_parse w (toISOString w (clock w)) = Some (clock w)
       else True) \<and>
      later_resets_ok u T es (after e w))"

definition cutoff_from :: "string \<Rightarrow> int \<Rightarrow> world \<Rightarrow> world \<Rightarrow> bool" where
  \<comment> \<open>the second world has a client, the \<open>Date.parse\<close> of the first, and a reset marker of
      the user that parses to an instant not before \<open>T\<close> and not 0\<close>
  "cutoff_from u T w w' =
     (sheets_client w' \<and> Date_parse w' = Date_parse w \<and>
      (\<exists>s T'. lookup_setting (''reset:'' @ u) (settings w') = Some s \<and> s \<noteq> [] \<and>
         Date_parse w s = Some T' \<and> T \<le> T' \<and> T' \<noteq> 0))"

definition dropped :: "string option \<Rightarrow> world \<Rightarrow> bool" where
  \<comment> \<open>the duplicate check of the handler answers true: the message is not processed\<close>
  "dropped msgId w =
     (fst ((if falsy msgId then ret False else hasMessage (to_string msgId)) w) = Inr True)"

text \<open>
  The worlds the handler passes through before it reads the settings, and the history it
  has fetched by then.
\<close>

definition checked :: "string option \<Rightarrow> world \<Rightarrow> world" where
  \<comment> \<open>after the duplicate check\<close>
  "checked msgId w = snd ((if falsy msgId then ret False else hasMessage (to_string msgId)) w)"

definition persisted :: "string \<Rightarrow> string \<Rightarrow> string option \<Rightarrow> world \<Rightarrow> world" where
  \<comment> \<open>after the user turn has been appended\<close>
  "persisted number message msgId w =
     snd (appendMessage number ''user'' message msgId (checked msgId w))"

definition fetched_history :: "string \<Rightarrow> string \<Rightarrow> string option \<Rightarrow> world \<Rightarrow> chat_message list" where
  "fetched_history number message msgId w =
     (case fst (getRecentConversation number 12 (persisted number message msgId w)) of
        Inl e \<Rightarrow> []
      | Inr h \<Rightarrow> h)"

definition settings_read :: "string \<Rightarrow> string \<Rightarrow> string option \<Rightarrow> world \<Rightarrow> world" where
  \<comment> \<open>the world in which the handler calls \<open>getAllSettings\<close>\<close>
  "settings_read number message msgId w =
     snd (getRecentConversation number 12 (persisted number message msgId w))"

section \<open>A runtime and a store for the examples\<close>

text \<open>
  The theorems below hold for every world. The examples run in a world whose \<open>Date\<close>
  functions follow the ISO format of \<open>toISOString\<close> (\<open>YYYY-MM-DDTHH:mm:ss.sssZ\<close>, for the
  years 0000 to 9999) over the proleptic Gregorian calendar.
\<close>

definition days_from_civil :: "int \<Rightarrow> int \<Rightarrow> int \<Rightarrow> int" where
  "days_from_civil y m d =
     (let y' = (if m \<le> 2 then y - 1 else y);
          era = y' div 400;
          yoe = y' - era * 400;
          doy = (153 * (m + (if m > 2 then - 3 else 9)) + 2) div 5 + d - 1;
          doe = yoe * 365 + yoe div 4 - yoe div 100 + doy
      in era * 146097 + doe - 719468)"

definition civil_from_days :: "int \<Rightarrow> int \<times> int \<times> int" where
  "civil_from_days z =
     (let z' = z + 719468;
          era = z' div 146097;
          doe = z' - era * 146097;
          yoe = (doe - doe div 1460 + doe div 36524 - doe div 146096) div 365;
          doy = doe - (365 * yoe + yoe div 4 - yoe div 100);
          mp = (5 * doy + 2) div 153;
          d = doy - (153 * mp + 2) div 5 + 1;
          m = mp + (if mp < 10 then 3 else - 9)
      in (yoe + era * 400 + (if m \<le> 2 then 1 else 0), m, d))"

fun digits :: "nat \<Rightarrow> int \<Rightarrow> string" where
  "digits 0 n = []"
| "digits (Suc k) n = digits k (n div 10) @ [char_of (48 + n mod 10)]"

definition iso_toISOString :: "int \<Rightarrow> string" where
  "iso_toISOString t =
     (let (y, m, d) = civil_from_days (t div 86400000); r = t mod 86400000
      in digits 4 y @ ''-'' @ digits 2 m @ ''-'' @ digits 2 d @ ''T'' @
         digits 2 (r div 3600000) @ '':'' @ digits 2 (r div 60000 mod 60) @ '':'' @
         digits 2 (r div 1000 mod 60) @ ''.'' @ digits 3 (r mod 1000) @ ''Z'')"

fun decimal :: "string \<Rightarrow> int option" where
  "decimal [] = Some 0"
| "decimal (c # cs) =
     (if is_digit c
      then map_option (\<lambda>n. (int (of_char c) - 48) * 10 ^ length cs + n) (decimal cs)
      else None)"

definition iso_Date_parse :: "string \<Rightarrow> int option" where
  "iso_Date_parse s =
     (if length s = 24 \<and> map (\<lambda>i. s ! i) [4, 7, 10, 13, 16, 19, 23] = ''--T::.Z''
      then
        (case map decimal [take 4 s, take 2 (drop 5 s), take 2 (drop 8 s), take 2 (drop 11 s),
                          take 2 (drop 14 s), take 2 (drop 17 s), take 3 (drop 20 s)] of
           [Some y, Some m, Some d, Some h, Some mi, Some sec, Some ms] \<Rightarrow>
             (if 1 \<le> m \<and> m \<le> 12 \<and> 1 \<le> d \<and> civil_from_days (days_from_civil y m d) = (y, m, d)
                 \<and> h < 24 \<and> mi < 60 \<and> sec < 60
              then Some (days_from_civil y m d * 86400000 + h * 3600000 + mi * 60000
                         + sec * 1000 + ms)
              else None)
         | _ \<Rightarrow> None)
      else None)"

definition shop :: world where
  \<comment> \<open>a configured deployment at 2024-01-01T00:00:00.000Z with an empty conversation log\<close>
  "shop =
     \<lparr>WHATSAPP_API_KEY = Some ''key'', WHATSAPP_API_VERSION = Some ''v19.0'',
      WHATSAPP_PHONE_NUMBER_ID = Some ''42'', sheets_client = True, clock = 1704067200000,
      toISOString = iso_toISOString, Date_parse = iso_Date_parse,
      tabs = [''settings'', ''messages'', ''facts''],
      settings = [[''biz:name'', ''Acme''], [''biz:hours'', ''9to5'']], messages = [],
      faults = [],
      openai_create = (\<lambda>_. Inr (Completion (Some [Some (Some ''We are open 9 to 5.'')]))),
      openai_requests = [], axios_request = (\<lambda>_. Inr 200), axios_requests = [],
      logged = []\<rparr>"


definition returning_customer :: world where
  \<comment> \<open>the shop after it has answered message \<open>wamid.1\<close> of customer \<open>55501\<close>\<close>
  "returning_customer =
     shop\<lparr>messages :=
       [[''2024-01-01T00:00:00.000Z'', ''55501'', ''user'', ''What are your hours?'', ''wamid.1''],
        [''2024-01-01T00:00:00.000Z'', ''55501'', ''assistant'', ''We are open 9 to 5.'', []]],
       clock := 1704067260000\<rparr>"

definition store_outage :: world where
  \<comment> \<open>the same, with the next request to the spreadsheet service rejected\<close>
  "store_outage =
     returning_customer\<lparr>faults := [Some (RequestError (Some 503) ''The service is unavailable'')]\<rparr>"

definition messages_outage :: world where
  \<comment> \<open>the same, with the second request to the spreadsheet service rejected\<close>
  "messages_outage =
     returning_customer\<lparr>faults := [None, Some (RequestError (Some 503) ''The service is unavailable'')]\<rparr>"

definition append_outage :: world where
  \<comment> \<open>the six requests of the header check succeed, the request after them is rejected\<close>
  "append_outage =
     returning_customer\<lparr>faults := [None, None, None, None, None, None,
       Some (RequestError (Some 503) ''The service is unavailable'')]\<rparr>"

definition relabelled :: world where
  \<comment> \<open>a log whose only row is an assistant turn that carries a message id\<close>
  "relabelled =
     shop\<lparr>messages :=
       [[''2024-01-01T00:00:00.000Z'', ''55501'', ''assistant'', ''Hello'', ''wamid.9'']]\<rparr>"

definition broken_store :: collaborators where
  \<comment> \<open>the services of the repository, but with a store whose \<open>appendMessage\<close> rejects\<close>
  "broken_store =
     services\<lparr>sheets_appendMessage := (\<lambda>waId rl text msgId. throw (TypeError ''append failed''))\<rparr>"

definition marker_read_outage :: world where
  \<comment> \<open>customer \<open>55501\<close> has reset the conversation; then the spreadsheet service rejects a request\<close>
  "marker_read_outage =
     run_events [Reset ''55501'',
                 Tick 1704067320000 [Some (RequestError (Some 503) ''The service is unavailable'')]]
       returning_customer"

definition header_outage :: world where
  \<comment> \<open>the three sheet checks succeed, the first header write is rejected\<close>
  "header_outage =
     returning_customer\<lparr>faults := [None, None, None,
       Some (RequestError (Some 503) ''The service is unavailable'')]\<rparr>"

definition settings_outage :: world where
  \<comment> \<open>the shop, with the eleventh request to the spreadsheet service rejected: for a new
      message that is the read of the settings\<close>
  "settings_outage =
     shop\<lparr>faults := [None, None, None, None, None, None, None, None, None, None,
       Some (RequestError (Some 503) ''The service is unavailable'')]\<rparr>"

definition reset_twice :: world where
  \<comment> \<open>customer \<open>55501\<close> has reset the conversation; a minute later the customer writes
      again, resets while the spreadsheet service rejects the read of the settings, resets
      once more with the service up, and writes again\<close>
  "reset_twice =
     run_events [Tick 1704067320000 [], Handle ''55501'' ''Thanks'' (Some ''wamid.2''),
                 Tick 1704067380000 [None, None, None, None, None, None,
                   Some (RequestError (Some 503) ''The service is unavailable'')],
                 Reset ''55501'',
                 Tick 1704067440000 [], Reset ''55501'',
                 Tick 1704067500000 [], Handle ''55501'' ''Bye'' (Some ''wamid.3'')]
       (snd (resetConversation ''55501'' returning_customer))"

section \<open>Sequencing, catching, and methods that never reject\<close>

lemma bind_Inr: "m w = (Inr x, w') \<Longrightarrow> bind m f w = f x w'"
  by (simp add: bind_def)

lemma bind_Inl: "m w = (Inl e, w') \<Longrightarrow> bind m f w = (Inl e, w')"
  by (simp add: bind_def)

lemma try_catch_Inr: "m w = (Inr x, w') \<Longrightarrow> try_catch m h w = (Inr x, w')"
  by (simp add: try_catch_def)

lemma try_catch_Inl: "m w = (Inl e, w') \<Longrightarrow> try_catch m h w = h e w'"
  by (simp add: try_catch_def)

lemma no_throwD: "no_throw m \<Longrightarrow> \<exists>x w'. m w = (Inr x, w')"
  by (simp add: no_throw_def)

lemma no_throw_ret: "no_throw (ret x)"
  by (simp add: no_throw_def ret_def)

lemma no_throw_gets: "no_throw (gets f)"
  by (simp add: no_throw_def gets_def)

lemma no_throw_modify: "no_throw (modify f)"
  by (simp add: no_throw_def modify_def)

lemma no_throw_logger: "no_throw (logger e)"
  by (simp add: logger_def no_throw_modify)

lemma no_throw_bind: "no_throw m \<Longrightarrow> (\<And>x. no_throw (f x)) \<Longrightarrow> no_throw (bind m f)"
  unfolding no_throw_def
proof
  fix w
  assume m: "\<forall>w. \<exists>x w'. m w = (Inr x, w')" and f: "\<And>x. \<forall>w. \<exists>y w'. f x w = (Inr y, w')"
  from m obtain x w1 where 1: "m w = (Inr x, w1)" by blast
  from f obtain y w2 where "f x w1 = (Inr y, w2)" by blast
  with 1 show "\<exists>y w'. bind m f w = (Inr y, w')" by (simp add: bind_def)
qed

lemma no_throw_try_catch: "(\<And>e. no_throw (h e)) \<Longrightarrow> no_throw (try_catch m h)"
  unfolding no_throw_def
proof
  fix w
  assume h: "\<And>e. \<forall>w. \<exists>y w'. h e w = (Inr y, w')"
  obtain r w1 where 1: "m w = (r, w1)" by (cases "m w")
  show "\<exists>y w'. try_catch m h w = (Inr y, w')"
  proof (cases r)
    case (Inl e)
    from h obtain y w2 where "h e w1 = (Inr y, w2)" by blast
    with 1 Inl show ?thesis by (simp add: try_catch_def)
  next
    case (Inr x)
    with 1 show ?thesis by (simp add: try_catch_def)
  qed
qed

lemma no_throw_if: "no_throw m \<Longrightarrow> no_throw n \<Longrightarrow> no_throw (if c then m else n)"
  by simp

lemma no_throw_case_option:
  "no_throw m \<Longrightarrow> (\<And>y. no_throw (f y)) \<Longrightarrow> no_throw (case x of None \<Rightarrow> m | Some y \<Rightarrow> f y)"
  by (cases x) simp_all

lemma no_throw_Let: "no_throw (f x) \<Longrightarrow> no_throw (Let x f)"
  by simp

lemmas no_throw_intros = no_throw_ret no_throw_gets no_throw_modify no_throw_logger
  no_throw_bind no_throw_try_catch no_throw_if no_throw_case_option no_throw_Let

lemma no_throw_getClient: "no_throw getClient"
  by (simp add: getClient_def no_throw_gets)

lemma no_throw_ensureSheetExists: "no_throw (ensureSheetExists t)"
  unfolding ensureSheetExists_def
  by (intro no_throw_intros no_throw_getClient)

lemma no_throw_header_update: "no_throw header_update"
  by (simp add: header_update_def no_throw_intros)

lemma no_throw_ensureHeaders: "no_throw ensureHeaders"
  unfolding ensureHeaders_def
  by (intro no_throw_intros no_throw_getClient no_throw_ensureSheetExists no_throw_header_update)

lemma no_throw_appendMessage: "no_throw (appendMessage a b c d)"
  unfolding appendMessage_def
  by (intro no_throw_intros no_throw_getClient no_throw_ensureHeaders)

lemma no_throw_getSetting: "no_throw (getSetting k)"
  unfolding getSetting_def
  by (intro no_throw_intros no_throw_getClient)

lemma no_throw_getRecentConversation: "no_throw (getRecentConversation u n)"
  unfolding getRecentConversation_def
  by (intro no_throw_intros no_throw_getClient)

lemma no_throw_hasMessage: "no_throw (hasMessage m)"
  unfolding hasMessage_def
  by (intro no_throw_intros no_throw_getClient)

lemma no_throw_setSetting: "no_throw (setSetting k v)"
  unfolding setSetting_def
  by (intro no_throw_intros no_throw_getClient no_throw_ensureHeaders)

lemma no_throw_getAllSettings: "no_throw getAllSettings"
  unfolding getAllSettings_def
  by (intro no_throw_intros no_throw_getClient)

lemma no_throw_resetConversation: "no_throw (resetConversation u)"
  unfolding resetConversation_def
  by (intro no_throw_intros no_throw_setSetting)

lemma no_throw_generateOpenAIResponse: "no_throw (generateOpenAIResponse p h)"
  unfolding generateOpenAIResponse_def
  by (intro no_throw_intros)

lemma no_throw_sendMessage: "no_throw (sendMessage t m)"
  unfolding sendMessage_def
  by (intro no_throw_intros)

lemma no_throw_handleUserMessage: "no_throw (handleUserMessage C n m i)"
  unfolding handleUserMessage_def
  by (intro no_throw_intros no_throw_sendMessage)

section \<open>What a method leaves untouched\<close>

lemma preservesD: "preserves f m \<Longrightarrow> f (snd (m w)) = f w"
  by (simp add: preserves_def)

lemma preserves_ret: "preserves f (ret x)"
  by (simp add: preserves_def ret_def)

lemma preserves_gets: "preserves f (gets g)"
  by (simp add: preserves_def gets_def)

lemma preserves_modify: "(\<And>w. f (g w) = f w) \<Longrightarrow> preserves f (modify g)"
  by (simp add: preserves_def modify_def)

lemma preserves_bind: "preserves f m \<Longrightarrow> (\<And>x. preserves f (g x)) \<Longrightarrow> preserves f (bind m g)"
  unfolding preserves_def
proof
  fix w
  assume m: "\<forall>w. f (snd (m w)) = f w" and g: "\<And>x. \<forall>w. f (snd (g x w)) = f w"
  obtain r w1 where 1: "m w = (r, w1)" by (cases "m w")
  from m 1 have 2: "f w1 = f w" by (metis snd_conv)
  show "f (snd (bind m g w)) = f w"
  proof (cases r)
    case (Inl e)
    with 1 2 show ?thesis by (simp add: bind_def)
  next
    case (Inr x)
    with 1 2 g [of x] show ?thesis by (simp add: bind_def)
  qed
qed

lemma preserves_try_catch:
  "preserves f m \<Longrightarrow> (\<And>e. preserves f (h e)) \<Longrightarrow> preserves f (try_catch m h)"
  unfolding preserves_def
proof
  fix w
  assume m: "\<forall>w. f (snd (m w)) = f w" and h: "\<And>e. \<forall>w. f (snd (h e w)) = f w"
  obtain r w1 where 1: "m w = (r, w1)" by (cases "m w")
  from m 1 have 2: "f w1 = f w" by (metis snd_conv)
  show "f (snd (try_catch m h w)) = f w"
  proof (cases r)
    case (Inl e)
    with 1 2 h [of e] show ?thesis by (simp add: try_catch_def)
  next
    case (Inr x)
    with 1 2 show ?thesis by (simp add: try_catch_def)
  qed
qed

lemma preserves_if: "preserves f m \<Longrightarrow> preserves f n \<Longrightarrow> preserves f (if c then m else n)"
  by simp

lemma preserves_case_option:
  "preserves f m \<Longrightarrow> (\<And>y. preserves f (g y)) \<Longrightarrow>
   preserves f (case x of None \<Rightarrow> m | Some y \<Rightarrow> g y)"
  by (cases x) simp_all

lemma preserves_Let: "preserves f (g x) \<Longrightarrow> preserves f (Let x g)"
  by simp

lemma preserves_logger: "(\<And>w v. f (w\<lparr>logged := v\<rparr>) = f w) \<Longrightarrow> preserves f (logger e)"
  by (simp add: logger_def preserves_modify)

lemma preserves_sheets_api: "(\<And>w v. f (w\<lparr>faults := v\<rparr>) = f w) \<Longrightarrow> preserves f sheets_api"
  by (simp add: preserves_def sheets_api_def split: list.splits)

lemma preserves_getClient: "preserves f getClient"
  by (simp add: getClient_def preserves_gets)

lemmas preserves_intros = preserves_ret preserves_gets preserves_bind preserves_try_catch
  preserves_if preserves_case_option preserves_Let preserves_getClient

lemma preserves_values_get:
  "(\<And>w v. f (w\<lparr>faults := v\<rparr>) = f w) \<Longrightarrow> preserves f (values_get r)"
  unfolding values_get_def by (intro preserves_intros preserves_sheets_api)

lemma preserves_ensureSheetExists:
  assumes "\<And>w v. f (w\<lparr>faults := v\<rparr>) = f w" "\<And>w v. f (w\<lparr>logged := v\<rparr>) = f w"
    "\<And>w v. f (w\<lparr>tabs := v\<rparr>) = f w"
  shows "preserves f (ensureSheetExists t)"
  unfolding ensureSheetExists_def
  by (intro preserves_intros preserves_sheets_api preserves_logger preserves_modify assms)

lemma preserves_ensureHeaders:
  assumes "\<And>w v. f (w\<lparr>faults := v\<rparr>) = f w" "\<And>w v. f (w\<lparr>logged := v\<rparr>) = f w"
    "\<And>w v. f (w\<lparr>tabs := v\<rparr>) = f w"
  shows "preserves f ensureHeaders"
  unfolding ensureHeaders_def header_update_def
  by (intro preserves_intros preserves_sheets_api preserves_ensureSheetExists assms)

lemma preserves_appendMessage:
  assumes "\<And>w v. f (w\<lparr>faults := v\<rparr>) = f w" "\<And>w v. f (w\<lparr>logged := v\<rparr>) = f w"
    "\<And>w v. f (w\<lparr>tabs := v\<rparr>) = f w" "\<And>w v. f (w\<lparr>messages := v\<rparr>) = f w"
  shows "preserves f (appendMessage a b c d)"
  unfolding appendMessage_def
  by (intro preserves_intros preserves_sheets_api preserves_ensureHeaders preserves_logger
      preserves_modify assms)

lemma preserves_getSetting:
  assumes "\<And>w v. f (w\<lparr>faults := v\<rparr>) = f w" "\<And>w v. f (w\<lparr>logged := v\<rparr>) = f w"
  shows "preserves f (getSetting k)"
  unfolding getSetting_def
  by (intro preserves_intros preserves_values_get preserves_logger assms)

lemma preserves_getRecentConversation:
  assumes "\<And>w v. f (w\<lparr>faults := v\<rparr>) = f w" "\<And>w v. f (w\<lparr>logged := v\<rparr>) = f w"
  shows "preserves f (getRecentConversation u n)"
  unfolding getRecentConversation_def
  by (intro preserves_intros preserves_values_get preserves_getSetting preserves_logger assms)

lemma preserves_hasMessage:
  assumes "\<And>w v. f (w\<lparr>faults := v\<rparr>) = f w" "\<And>w v. f (w\<lparr>logged := v\<rparr>) = f w"
  shows "preserves f (hasMessage m)"
  unfolding hasMessage_def
  by (intro preserves_intros preserves_values_get preserves_logger assms)

lemma preserves_getAllSettings:
  assumes "\<And>w v. f (w\<lparr>faults := v\<rparr>) = f w" "\<And>w v. f (w\<lparr>logged := v\<rparr>) = f w"
  shows "preserves f getAllSettings"
  unfolding getAllSettings_def
  by (intro preserves_intros preserves_values_get preserves_logger assms)

lemma preserves_setSetting:
  assumes "\<And>w v. f (w\<lparr>faults := v\<rparr>) = f w" "\<And>w v. f (w\<lparr>logged := v\<rparr>) = f w"
    "\<And>w v. f (w\<lparr>tabs := v\<rparr>) = f w" "\<And>w v. f (w\<lparr>settings := v\<rparr>) = f w"
  shows "preserves f (setSetting k x)"
  unfolding setSetting_def
  by (intro preserves_intros preserves_values_get preserves_sheets_api preserves_ensureHeaders
      preserves_logger preserves_modify assms)

lemma preserves_generateOpenAIResponse:
  assumes "\<And>w v. f (w\<lparr>openai_requests := v\<rparr>) = f w" "\<And>w v. f (w\<lparr>logged := v\<rparr>) = f w"
  shows "preserves f (generateOpenAIResponse p h)"
proof -
  have a: "preserves f (openai_chat ms)" for ms
    by (simp add: preserves_def openai_chat_def assms)
  have b: "preserves f (first_content c)" for c
    by (simp add: preserves_def first_content_def throw_def ret_def split: option.splits)
  show ?thesis
    unfolding generateOpenAIResponse_def generateOpenAIResponse_try_def
    by (intro preserves_intros preserves_logger a b assms)
qed

lemma preserves_sendMessage:
  assumes "\<And>w v. f (w\<lparr>axios_requests := v\<rparr>) = f w" "\<And>w v. f (w\<lparr>logged := v\<rparr>) = f w"
  shows "preserves f (sendMessage t m)"
proof -
  have a: "preserves f (axios r)" for r
    by (simp add: preserves_def axios_def assms)
  show ?thesis
    unfolding sendMessage_def
    by (intro preserves_intros preserves_logger a assms)
qed

section \<open>The completion client\<close>





section \<open>Sending\<close>

lemma sendMessage_no_credentials:
  "\<not> credentials w \<Longrightarrow>
   sendMessage t m w = (Inr (), w\<lparr>logged := logged w @ [Warn ''Missing WhatsApp API env vars. Skipping send.'']\<rparr>)"
  by (auto simp: sendMessage_def credentials_def bind_def gets_def logger_def modify_def)

lemma sendMessage_no_digits:
  "credentials w \<Longrightarrow> strip_non_digits t = [] \<Longrightarrow>
   sendMessage t m w = (Inr (), w\<lparr>logged := logged w @ [Warn ''sendMessage called with invalid recipient number'']\<rparr>)"
  by (auto simp: sendMessage_def credentials_def bind_def gets_def logger_def modify_def)

lemma sendMessage_delivers:
  "credentials w \<Longrightarrow> strip_non_digits t \<noteq> [] \<Longrightarrow>
   sendMessage t m w =
     (Inr (), w\<lparr>axios_requests := axios_requests w @ [config_of w t m],
               logged := logged w @ [case axios_request w (config_of w t m) of
                                       Inl e \<Rightarrow> Error ''WhatsApp send failed''
                                     | Inr s \<Rightarrow> Log (''WhatsApp send ok: '' @ show_nat s)]\<rparr>)"
  by (auto simp: sendMessage_def credentials_def bind_def gets_def logger_def modify_def Let_def
      try_catch_def axios_def config_of_def split: sum.splits)

lemma config_of_simps: "req_to (config_of w t m) = strip_non_digits t" "req_body (config_of w t m) = m"
  by (simp_all add: config_of_def request_config_def)

text \<open>
  C8. \<open>sendMessage\<close> never rejects. A request it makes is addressed to the recipient with
  every non-digit removed (\<open>+1 (555) 123-4567\<close> becomes \<open>15551234567\<close>), and with
  credentials and a digit in the recipient it makes that request. When no digit is left
  (as for \<open>not-a-number\<close>) it logs one warning and makes no request.
\<close>

theorem sendMessage_normalizes:
  "strip_non_digits ''+1 (555) 123-4567'' = ''15551234567'' \<and>
   strip_non_digits ''not-a-number'' = [] \<and>
   (\<exists>w'. sendMessage t m w = (Inr (), w')) \<and>
   (axios_requests (snd (sendMessage t m w)) = axios_requests w \<or>
    (\<exists>r. axios_requests (snd (sendMessage t m w)) = axios_requests w @ [r] \<and>
         req_to r = strip_non_digits t \<and> req_body r = m)) \<and>
   (credentials w \<and> strip_non_digits t \<noteq> [] \<longrightarrow>
      (\<exists>r. axios_requests (snd (sendMessage t m w)) = axios_requests w @ [r] \<and>
         req_to r = strip_non_digits t \<and> req_body r = m)) \<and>
   (strip_non_digits t = [] \<longrightarrow>
      (\<exists>x. sendMessage t m w = (Inr (), w\<lparr>logged := logged w @ [Warn x]\<rparr>)))"
proof -
  have ex: "strip_non_digits ''+1 (555) 123-4567'' = ''15551234567''"
           "strip_non_digits ''not-a-number'' = []"
    by (simp_all add: strip_non_digits_def is_digit_def)
  have delivered: "\<exists>r. axios_requests (snd (sendMessage t m w)) = axios_requests w @ [r] \<and>
         req_to r = strip_non_digits t \<and> req_body r = m"
    if "credentials w" "strip_non_digits t \<noteq> []"
    using sendMessage_delivers [OF that, of m] by (simp add: config_of_simps)
  have skipped: "\<exists>x. sendMessage t m w = (Inr (), w\<lparr>logged := logged w @ [Warn x]\<rparr>)"
    if "\<not> credentials w \<or> strip_non_digits t = []"
  proof (cases "credentials w")
    case False
    then show ?thesis using sendMessage_no_credentials [of w t m] by blast
  next
    case True
    with that show ?thesis using sendMessage_no_digits [of w t m] by blast
  qed
  have resolves: "\<exists>w'. sendMessage t m w = (Inr (), w')"
    using no_throwD [OF no_throw_sendMessage, of t m w] by simp
  have target: "axios_requests (snd (sendMessage t m w)) = axios_requests w \<or>
    (\<exists>r. axios_requests (snd (sendMessage t m w)) = axios_requests w @ [r] \<and>
         req_to r = strip_non_digits t \<and> req_body r = m)"
  proof (cases "credentials w \<and> strip_non_digits t \<noteq> []")
    case True
    then show ?thesis using delivered by blast
  next
    case False
    then obtain x where "sendMessage t m w = (Inr (), w\<lparr>logged := logged w @ [Warn x]\<rparr>)"
      using skipped by blast
    then show ?thesis by simp
  qed
  from ex delivered skipped resolves target show ?thesis by blast
qed

theorem sendMessage_normalizes_witness:
  "credentials shop \<and> strip_non_digits ''+1 (555) 123-4567'' \<noteq> [] \<and> strip_non_digits ''not-a-number'' = [] \<and>
   (\<exists>r. axios_requests (snd (sendMessage ''+1 (555) 123-4567'' ''hi'' shop)) = [r] \<and>
        req_to r = ''15551234567'' \<and> req_body r = ''hi'') \<and>
   (\<exists>x. sendMessage ''not-a-number'' ''hi'' shop = (Inr (), shop\<lparr>logged := [Warn x]\<rparr>))"
proof -
  have c: "credentials shop"
    by code_simp
  have d: "strip_non_digits ''+1 (555) 123-4567'' = ''15551234567''" "strip_non_digits ''not-a-number'' = []"
    by (simp_all add: strip_non_digits_def is_digit_def)
  have l: "axios_requests shop = []" "logged shop = []" by (simp_all add: shop_def)
  from sendMessage_normalizes [of "''+1 (555) 123-4567''" "''hi''" shop]
       sendMessage_normalizes [of "''not-a-number''" "''hi''" shop] c d l
  show ?thesis by simp
qed

section \<open>What the reads of the store return\<close>

lemma faults_nil_same: "faults w = [] \<Longrightarrow> w\<lparr>faults := []\<rparr> = w"
  by (cases w) simp

lemma sheets_api_run:
  "sheets_api w =
     (if succeeds 0 w then Inr () else Inl (the (hd (faults w))), w\<lparr>faults := tl (faults w)\<rparr>)"
  by (auto simp: sheets_api_def succeeds_def faults_nil_same split: list.splits option.splits)

lemma succeeds_Suc: "succeeds (Suc i) w = succeeds i (w\<lparr>faults := tl (faults w)\<rparr>)"
  by (simp add: succeeds_def drop_Suc)

lemma values_get_run:
  "values_get r w =
     (if succeeds 0 w then Inr (r (w\<lparr>faults := tl (faults w)\<rparr>)) else Inl (the (hd (faults w))),
      w\<lparr>faults := tl (faults w)\<rparr>)"
  by (simp add: values_get_def bind_def sheets_api_run gets_def)

lemma at_drop: "at (drop k r) i = at r (k + i)"
  by (auto simp: at_def)

lemma list_ex_msgid:
  "m \<noteq> [] \<Longrightarrow> list_ex (\<lambda>r. str_or (at r 0) [] = m) (map (drop 4) rows) =
     (\<exists>r\<in>set rows. at r 4 = Some m)"
  by (auto simp: list_ex_iff at_drop str_or_def split: option.splits if_splits)

lemma hasMessage_run:
  "hasMessage m w =
     (if m = [] \<or> \<not> sheets_client w then (Inr False, w)
      else if succeeds 0 w
           then (Inr (\<exists>r\<in>set (messages w). at r 4 = Some m), w\<lparr>faults := tl (faults w)\<rparr>)
           else (Inr False, w\<lparr>faults := tl (faults w),
                              logged := logged w @ [Error ''hasMessage failed'']\<rparr>))"
  by (simp add: hasMessage_def ret_def bind_def getClient_def gets_def try_catch_def
      values_get_run logger_def modify_def list_ex_msgid)

lemma getSetting_run:
  "getSetting k w =
     (if \<not> sheets_client w then (Inr None, w)
      else if succeeds 0 w
           then (Inr (lookup_setting k (settings w)), w\<lparr>faults := tl (faults w)\<rparr>)
           else (Inr None, w\<lparr>faults := tl (faults w),
                             logged := logged w @ [Error ''getSetting failed'']\<rparr>))"
  by (simp add: getSetting_def ret_def bind_def getClient_def gets_def try_catch_def
      values_get_run logger_def modify_def)

lemma getAllSettings_run:
  "getAllSettings w =
     (if \<not> sheets_client w then (Inr [], w)
      else if succeeds 0 w
           then (Inr (settings_map [] (settings w)), w\<lparr>faults := tl (faults w)\<rparr>)
           else (Inr [], w\<lparr>faults := tl (faults w),
                           logged := logged w @ [Error ''getAllSettings failed'']\<rparr>))"
  by (simp add: getAllSettings_def ret_def bind_def getClient_def gets_def try_catch_def
      values_get_run logger_def modify_def)

lemma qualifies_frame [simp]:
  "qualifies (w\<lparr>faults := v\<rparr>) = qualifies w" "qualifies (w\<lparr>logged := l\<rparr>) = qualifies w"
  by (simp_all add: qualifies_def fun_eq_iff)

lemma recentRows_frame [simp]:
  "recentRows (w\<lparr>faults := v\<rparr>) = recentRows w" "recentRows (w\<lparr>logged := l\<rparr>) = recentRows w"
  by (simp_all add: recentRows_def fun_eq_iff)

lemma resetTime_of_frame [simp]:
  "resetTime_of (w\<lparr>faults := v\<rparr>) = resetTime_of w" "resetTime_of (w\<lparr>logged := l\<rparr>) = resetTime_of w"
  by (simp_all add: resetTime_of_def fun_eq_iff)

lemma succeeds_frame [simp]: "succeeds i (w\<lparr>logged := l\<rparr>) = succeeds i w"
  by (simp add: succeeds_def)

lemma getRecentConversation_result:
  "fst (getRecentConversation u n w) =
     Inr (if sheets_client w \<and> succeeds 1 w
          then map turn_of_row
                 (recentRows w u n
                    (resetTime_of w (if succeeds 0 w then lookup_setting (''reset:'' @ u) (settings w)
                                     else None))
                    (messages w))
          else [])"
  by (simp add: getRecentConversation_def ret_def bind_def getClient_def gets_def try_catch_def
      values_get_run getSetting_run logger_def modify_def succeeds_Suc)

section \<open>The duplicate check\<close>

text \<open>
  C7, as the code has it. \<open>hasMessage(msgId)\<close> never rejects; it answers true exactly when
  \<open>msgId\<close> is not empty, the store client is configured, the read of column E succeeds and
  some row, whatever its role, carries exactly \<open>msgId\<close> in that column. For the empty id
  the answer is false whatever the rows hold.
\<close>

theorem hasMessage_iff:
  "fst (hasMessage m w) =
     Inr (m \<noteq> [] \<and> sheets_client w \<and> succeeds 0 w \<and> (\<exists>r\<in>set (messages w). at r 4 = Some m))"
  by (simp add: hasMessage_run)

theorem hasMessage_iff_witness:
  "(\<exists>r\<in>set (messages returning_customer). at r 4 = Some ''wamid.1'') \<and>
   fst (hasMessage ''wamid.1'' returning_customer) = Inr True \<and>
   fst (hasMessage [] returning_customer) = Inr False"
  using hasMessage_iff [of "''wamid.1''" returning_customer] hasMessage_iff [of "[]" returning_customer]
  by (simp add: returning_customer_def shop_def succeeds_def at_def)

text \<open>
  The answer does not follow the user turns of the store: with the read rejected it is
  false although a user turn carries the id, and it is true for an id that only an
  assistant row carries.
\<close>

theorem hasMessage_iff_counterexample:
  "messages store_outage ! 0 =
     [''2024-01-01T00:00:00.000Z'', ''55501'', ''user'', ''What are your hours?'', ''wamid.1''] \<and>
   fst (hasMessage ''wamid.1'' store_outage) = Inr False \<and>
   messages relabelled =
     [[''2024-01-01T00:00:00.000Z'', ''55501'', ''assistant'', ''Hello'', ''wamid.9'']] \<and>
   fst (hasMessage ''wamid.9'' relabelled) = Inr True"
  by (simp add: hasMessage_run store_outage_def returning_customer_def relabelled_def shop_def
      succeeds_def at_def)


text \<open>
  C1, as the code has it. When the message id is not empty, a user turn with that id is
  stored, the store client is configured and the read of the duplicate check succeeds,
  \<open>handleUserMessage\<close> resolves after the check: the world is the one it found but for
  the consumed request and one warning in the log, so no turn is appended, no completion
  is requested and nothing is sent.
\<close>

theorem duplicate_is_dropped:
  assumes "m \<noteq> []" and "sheets_client w" and "succeeds 0 w"
    and "\<exists>r\<in>set (messages w). at r 2 = Some ''user'' \<and> at r 4 = Some m"
  shows "handleUserMessage services number message (Some m) w =
           (Inr (), w\<lparr>faults := tl (faults w),
                      logged := logged w @ [Warn (''Duplicate message ignored: '' @ m)]\<rparr>)"
proof -
  from assms(4) have "\<exists>r\<in>set (messages w). at r 4 = Some m" by blast
  with assms(1-3) have "hasMessage m w = (Inr True, w\<lparr>faults := tl (faults w)\<rparr>)"
    by (simp add: hasMessage_run)
  with assms(1) show ?thesis
    by (simp add: handleUserMessage_def handleUserMessage_try_def services_def falsy_def
        to_string_def bind_def try_catch_def logger_def modify_def)
qed

theorem duplicate_is_dropped_witness:
  "''wamid.1'' \<noteq> [] \<and> sheets_client returning_customer \<and> succeeds 0 returning_customer \<and>
   (\<exists>r\<in>set (messages returning_customer). at r 2 = Some ''user'' \<and> at r 4 = Some ''wamid.1'') \<and>
   handleUserMessage services ''55501'' ''What are your hours?'' (Some ''wamid.1'') returning_customer =
     (Inr (), returning_customer\<lparr>faults := [],
        logged := [Warn ''Duplicate message ignored: wamid.1'']\<rparr>)"
proof -
  have h: "''wamid.1'' \<noteq> []" "sheets_client returning_customer" "succeeds 0 returning_customer"
    "\<exists>r\<in>set (messages returning_customer). at r 2 = Some ''user'' \<and> at r 4 = Some ''wamid.1''"
    by (simp_all add: returning_customer_def shop_def succeeds_def at_def)
  have l: "faults returning_customer = []" "logged returning_customer = []"
    by (simp_all add: returning_customer_def shop_def)
  from duplicate_is_dropped [OF h, of "''55501''" "''What are your hours?''"] h l
  show ?thesis by simp
qed

text \<open>
  With the read of the duplicate check rejected, the message that is already stored is
  handled again: two more turns are appended, a completion is requested and a reply sent.
\<close>

theorem duplicate_is_dropped_counterexample:
  "messages store_outage ! 0 =
     [''2024-01-01T00:00:00.000Z'', ''55501'', ''user'', ''What are your hours?'', ''wamid.1''] \<and>
   length (messages store_outage) = 2 \<and>
   length (messages (snd (handleUserMessage services ''55501'' ''What are your hours?''
                            (Some ''wamid.1'') store_outage))) = 4 \<and>
   length (openai_requests (snd (handleUserMessage services ''55501'' ''What are your hours?''
                            (Some ''wamid.1'') store_outage))) = 1 \<and>
   map req_to (axios_requests (snd (handleUserMessage services ''55501'' ''What are your hours?''
                            (Some ''wamid.1'') store_outage))) = [''55501'']"
  by code_simp

section \<open>The recent conversation\<close>

lemma slice_last: "0 < n \<Longrightarrow> slice (- n) xs = drop (length xs - nat n) xs"
proof -
  assume n: "0 < n"
  then have "nat (max (int (length xs) + - n) 0) = length xs - nat n"
    by (simp add: max_def) linarith
  with n show ?thesis by (simp add: slice_def Let_def)
qed

lemma slice_zero: "slice (- 0) xs = xs"
  by (simp add: slice_def)

lemma slice_suffix: "suffix (slice k xs) xs"
  by (simp add: slice_def Let_def suffix_drop)

lemma recentRows_subseq: "subseq (recentRows w u n t rows) rows"
proof -
  have "subseq (recentRows w u n t rows) (filter (qualifies w u t) rows)"
    unfolding recentRows_def by (rule suffix_imp_subseq) (rule slice_suffix)
  also have "subseq (filter (qualifies w u t) rows) rows" by simp
  finally show ?thesis .
qed

lemma recentRows_owner: "r \<in> set (recentRows w u n t rows) \<Longrightarrow> at r 1 = Some u"
proof -
  assume a: "r \<in> set (recentRows w u n t rows)"
  have "set (slice (- n) (filter (qualifies w u t) rows)) \<subseteq> set (filter (qualifies w u t) rows)"
    by (rule set_mono_suffix) (rule slice_suffix)
  with a have "r \<in> set (filter (qualifies w u t) rows)"
    unfolding recentRows_def by (rule rev_subsetD)
  then show ?thesis by (simp add: qualifies_def)
qed

lemma recentRows_length: "0 < n \<Longrightarrow> int (length (recentRows w u n t rows)) \<le> n"
  by (simp add: recentRows_def slice_last)

text \<open>
  Whatever the limit and whatever fails, \<open>getRecentConversation\<close> resolves with turns
  read off rows of the user, in the order of the sheet; a positive limit bounds their
  number.
\<close>

lemma recent_bounded:
  "\<exists>rs. fst (getRecentConversation u n w) = Inr (map turn_of_row rs) \<and>
        subseq rs (messages w) \<and> (\<forall>r\<in>set rs. at r 1 = Some u) \<and>
        (0 < n \<longrightarrow> int (length rs) \<le> n)"
proof (cases "sheets_client w \<and> succeeds 1 w")
  case True
  let ?t = "resetTime_of w (if succeeds 0 w then lookup_setting (''reset:'' @ u) (settings w) else None)"
  have "fst (getRecentConversation u n w) = Inr (map turn_of_row (recentRows w u n ?t (messages w)))"
    using True by (simp add: getRecentConversation_result)
  then show ?thesis
    using recentRows_subseq [of w u n ?t "messages w"] recentRows_owner [of _ w u n ?t "messages w"]
      recentRows_length [of n w u ?t "messages w"]
    by blast
next
  case False
  then have "fst (getRecentConversation u n w) = Inr (map turn_of_row [])"
    by (auto simp: getRecentConversation_result)
  then show ?thesis by (intro exI [of _ "[]"]) simp
qed

text \<open>
  C4 asks for at most \<open>n\<close> turns for every limit \<open>n\<close>. At the limit \<open>0\<close> the code
  keeps every qualifying row, since \<open>slice(-0)\<close> is \<open>slice(0)\<close>: the stored conversation of
  two turns comes back whole.
\<close>

theorem recent_limit_zero:
  "fst (getRecentConversation ''55501'' 0 returning_customer) =
     Inr [\<lparr>role = ''user'', content = ''What are your hours?''\<rparr>,
          \<lparr>role = ''assistant'', content = ''We are open 9 to 5.''\<rparr>]"
  by (simp add: getRecentConversation_result recentRows_def slice_def qualifies_def falsy_num_def
      falsy_def resetTime_of_def lookup_setting_def succeeds_def turn_of_row_def str_or_def
      at_def returning_customer_def shop_def)




section \<open>What the writes of the store do\<close>

lemma ensureHeaders_resolves: "ensureHeaders w = (Inr (), snd (ensureHeaders w))"
  using no_throwD [OF no_throw_ensureHeaders, of w] by auto

lemma bind_ensureHeaders: "bind ensureHeaders f w = f () (snd (ensureHeaders w))"
  by (rule bind_Inr) (rule ensureHeaders_resolves)

lemma bind_gets: "bind (gets g) f w = f (g w) w"
  by (simp add: bind_def gets_def)

lemma appendMessage_run:
  "appendMessage a b c d w =
     (if \<not> sheets_client w then (Inr (), w)
      else let w1 = snd (ensureHeaders w)
           in if succeeds 0 w1
              then (Inr (), w1\<lparr>faults := tl (faults w1),
                               messages := messages w1 @
                                 [[toISOString w1 (clock w1), a, b, c, str_or d []]]\<rparr>)
              else (Inr (), w1\<lparr>faults := tl (faults w1),
                               logged := logged w1 @ [Error ''appendMessage failed'']\<rparr>))"
proof (cases "sheets_client w")
  case False
  then show ?thesis by (simp add: appendMessage_def getClient_def bind_gets ret_def)
next
  case True
  have "appendMessage a b c d w =
      try_catch
        (bind (gets (\<lambda>w. [toISOString w (clock w), a, b, c, str_or d []])) (\<lambda>r.
         bind sheets_api (\<lambda>_. modify (\<lambda>w. w\<lparr>messages := messages w @ [r]\<rparr>))))
        (\<lambda>e. logger (Error ''appendMessage failed'')) (snd (ensureHeaders w))"
    using True by (simp add: appendMessage_def getClient_def bind_gets bind_ensureHeaders)
  then show ?thesis using True
    by (simp add: try_catch_def bind_def gets_def sheets_api_run modify_def logger_def Let_def)
qed

lemma setSetting_run:
  "setSetting k x w =
     (if \<not> sheets_client w then (Inr (), w)
      else let w1 = snd (ensureHeaders w)
           in if succeeds 0 w1 \<and> succeeds 1 w1
              then (Inr (), w1\<lparr>faults := tl (tl (faults w1)),
                               settings := with_setting k x (settings w1)\<rparr>)
              else (Inr (), w1\<lparr>faults := (if succeeds 0 w1 then tl (tl (faults w1)) else tl (faults w1)),
                               logged := logged w1 @ [Error ''setSetting failed'']\<rparr>))"
proof (cases "sheets_client w")
  case False
  then show ?thesis by (simp add: setSetting_def getClient_def bind_gets ret_def)
next
  case True
  have "setSetting k x w =
      try_catch
              (bind (values_get settings) (\<lambda>rows.
                 case find_index_from 0 (\<lambda>r. at r 0 = Some k) rows of
                   Some i \<Rightarrow>
                     bind sheets_api (\<lambda>_.
                       modify (\<lambda>w. w\<lparr>settings := (settings w)[i := [k, x]]\<rparr>))
                 | None \<Rightarrow>
                     bind sheets_api (\<lambda>_.
                       modify (\<lambda>w. w\<lparr>settings := settings w @ [[k, x]]\<rparr>))))
              (\<lambda>e. logger (Error ''setSetting failed'')) (snd (ensureHeaders w))"
    using True by (simp add: setSetting_def getClient_def bind_gets bind_ensureHeaders)
  then show ?thesis using True
    by (simp add: try_catch_def bind_def values_get_run sheets_api_run modify_def logger_def Let_def
        with_setting_def succeeds_Suc split: option.splits)
qed

lemma resetConversation_run:
  "resetConversation u w = setSetting (''reset:'' @ u) (toISOString w (clock w)) w"
  by (simp add: resetConversation_def bind_def gets_def)

section \<open>Failures of the store\<close>

lemma getRecentConversation_logged:
  "sheets_client w \<Longrightarrow> \<not> succeeds 1 w \<Longrightarrow>
   logged (snd (getRecentConversation u n w)) =
     logged (snd (getSetting (''reset:'' @ u) w)) @ [Error ''getRecentConversation failed'']"
  by (simp add: getRecentConversation_def ret_def bind_def getClient_def gets_def try_catch_def
      values_get_run getSetting_run logger_def modify_def succeeds_Suc)

lemma header_update_run: "header_update w = (Inr (), w\<lparr>faults := tl (faults w)\<rparr>)"
  by (simp add: header_update_def try_catch_def sheets_api_run ret_def)

lemma ensureSheetExists_run:
  "ensureSheetExists t w =
     (if \<not> sheets_client w then (Inr (), w)
      else if \<not> succeeds 0 w
      then (Inr (), w\<lparr>faults := tl (faults w),
                      logged := logged w @ [Error (''ensureSheetExists('' @ t @ '') failed'')]\<rparr>)
      else if t \<in> set (tabs w) then (Inr (), w\<lparr>faults := tl (faults w)\<rparr>)
      else if \<not> succeeds 1 w
      then (Inr (), w\<lparr>faults := tl (tl (faults w)),
                      logged := logged w @ [Error (''ensureSheetExists('' @ t @ '') failed'')]\<rparr>)
      else (Inr (), w\<lparr>faults := tl (tl (faults w)), tabs := tabs w @ [t]\<rparr>))"
  by (simp add: ensureSheetExists_def getClient_def bind_gets ret_def try_catch_def bind_def
      sheets_api_run gets_def modify_def logger_def succeeds_Suc)

lemma getRecentConversation_unfiltered:
  assumes "sheets_client w" "\<not> succeeds 0 w" "succeeds 1 w"
  shows "fst (getRecentConversation u n w) =
           Inr (map turn_of_row (slice (- n) (filter (\<lambda>r. at r 1 = Some u) (messages w))))"
    and "logged (snd (getRecentConversation u n w)) = logged w @ [Error ''getSetting failed'']"
proof -
  have "qualifies w u (Some 0) = (\<lambda>r. at r 1 = Some u)"
    by (simp add: qualifies_def falsy_num_def fun_eq_iff)
  with assms show "fst (getRecentConversation u n w) =
           Inr (map turn_of_row (slice (- n) (filter (\<lambda>r. at r 1 = Some u) (messages w))))"
    by (simp add: getRecentConversation_result resetTime_of_def falsy_def recentRows_def)
  from assms show "logged (snd (getRecentConversation u n w)) = logged w @ [Error ''getSetting failed'']"
    by (simp add: getRecentConversation_def ret_def bind_def getClient_def gets_def try_catch_def
      values_get_run getSetting_run logger_def modify_def succeeds_Suc)
qed

lemma ensureHeaders_append_outage:
  "snd (ensureHeaders append_outage) =
     append_outage\<lparr>faults := [Some (RequestError (Some 503) ''The service is unavailable'')]\<rparr>"
  by (simp add: ensureHeaders_def ensureSheetExists_def header_update_def getClient_def bind_gets
      bind_def try_catch_def sheets_api_def ret_def gets_def modify_def logger_def
      append_outage_def returning_customer_def shop_def)

text \<open>
  C9, as the code has it. In every world, so whatever requests to the spreadsheet service
  are rejected, each of \<open>hasMessage\<close>, \<open>appendMessage\<close>, \<open>getRecentConversation\<close>,
  \<open>getSetting\<close>, \<open>setSetting\<close>, \<open>getAllSettings\<close> and \<open>resetConversation\<close> resolves:
  none rejects. When the request that carries the operation is rejected (the read, the
  append, or either request of a settings write), the operation logs the error and
  resolves with its default (false, absent, the empty record, the empty sequence), and a
  write leaves the rows as they were. Inside an operation, a rejected sheet check of the
  header check is logged; a rejected header write is caught without a log entry and the
  operation goes on; \<open>resetConversation\<close> is \<open>setSetting\<close> on the marker of the user and
  logs what \<open>setSetting\<close> logs; a rejected read of the reset marker is logged by \<open>getSetting\<close> and
  \<open>getRecentConversation\<close> then returns the turns of the user without a cutoff, not the
  empty sequence.
\<close>

theorem store_never_raises:
  "(\<exists>b w'. hasMessage m w = (Inr b, w')) \<and>
   (\<exists>w'. appendMessage u r c i w = (Inr (), w')) \<and>
   (\<exists>ts w'. getRecentConversation u n w = (Inr ts, w')) \<and>
   (\<exists>v w'. getSetting k w = (Inr v, w')) \<and>
   (\<exists>w'. setSetting k x w = (Inr (), w')) \<and>
   (\<exists>s w'. getAllSettings w = (Inr s, w')) \<and>
   (\<exists>w'. resetConversation u w = (Inr (), w')) \<and>
   (sheets_client w \<and> \<not> succeeds 0 w \<longrightarrow>
      (m \<noteq> [] \<longrightarrow> hasMessage m w =
         (Inr False, w\<lparr>faults := tl (faults w), logged := logged w @ [Error ''hasMessage failed'']\<rparr>)) \<and>
      getSetting k w =
         (Inr None, w\<lparr>faults := tl (faults w), logged := logged w @ [Error ''getSetting failed'']\<rparr>) \<and>
      getAllSettings w =
         (Inr [], w\<lparr>faults := tl (faults w), logged := logged w @ [Error ''getAllSettings failed'']\<rparr>)) \<and>
   (sheets_client w \<and> \<not> succeeds 1 w \<longrightarrow>
      fst (getRecentConversation u n w) = Inr [] \<and>
      logged (snd (getRecentConversation u n w)) =
        logged (snd (getSetting (''reset:'' @ u) w)) @ [Error ''getRecentConversation failed'']) \<and>
   (sheets_client w \<and> \<not> succeeds 0 w \<and> succeeds 1 w \<longrightarrow>
      fst (getRecentConversation u n w) =
        Inr (map turn_of_row (slice (- n) (filter (\<lambda>r. at r 1 = Some u) (messages w)))) \<and>
      logged (snd (getRecentConversation u n w)) = logged w @ [Error ''getSetting failed'']) \<and>
   (sheets_client w \<and> \<not> succeeds 0 (snd (ensureHeaders w)) \<longrightarrow>
      appendMessage u r c i w =
        (Inr (), (snd (ensureHeaders w))\<lparr>faults := tl (faults (snd (ensureHeaders w))),
           logged := logged (snd (ensureHeaders w)) @ [Error ''appendMessage failed'']\<rparr>) \<and>
      setSetting k x w =
        (Inr (), (snd (ensureHeaders w))\<lparr>faults := tl (faults (snd (ensureHeaders w))),
           logged := logged (snd (ensureHeaders w)) @ [Error ''setSetting failed'']\<rparr>) \<and>
      messages (snd (appendMessage u r c i w)) = messages w \<and>
      settings (snd (setSetting k x w)) = settings w) \<and>
   (sheets_client w \<and> \<not> (succeeds 0 (snd (ensureHeaders w)) \<and> succeeds 1 (snd (ensureHeaders w))) \<longrightarrow>
      logged (snd (setSetting k x w)) =
        logged (snd (ensureHeaders w)) @ [Error ''setSetting failed''] \<and>
      settings (snd (setSetting k x w)) = settings w \<and>
      logged (snd (resetConversation u w)) =
        logged (snd (ensureHeaders w)) @ [Error ''setSetting failed''] \<and>
      settings (snd (resetConversation u w)) = settings w) \<and>
   resetConversation u w = setSetting (''reset:'' @ u) (toISOString w (clock w)) w \<and>
   header_update w = (Inr (), w\<lparr>faults := tl (faults w)\<rparr>) \<and>
   (sheets_client w \<and> \<not> succeeds 0 w \<longrightarrow>
      ensureSheetExists t w =
        (Inr (), w\<lparr>faults := tl (faults w),
                   logged := logged w @ [Error (''ensureSheetExists('' @ t @ '') failed'')]\<rparr>)) \<and>
   (sheets_client w \<and> succeeds 0 w \<and> t \<notin> set (tabs w) \<and> \<not> succeeds 1 w \<longrightarrow>
      ensureSheetExists t w =
        (Inr (), w\<lparr>faults := tl (tl (faults w)),
                   logged := logged w @ [Error (''ensureSheetExists('' @ t @ '') failed'')]\<rparr>))"
proof -
  have 1: "\<exists>b w'. hasMessage m w = (Inr b, w')" by (rule no_throwD) (rule no_throw_hasMessage)
  have 2: "\<exists>w'. appendMessage u r c i w = (Inr (), w')"
    using no_throwD [OF no_throw_appendMessage, of u r c i w] by simp
  have 3: "\<exists>ts w'. getRecentConversation u n w = (Inr ts, w')"
    by (rule no_throwD) (rule no_throw_getRecentConversation)
  have 4: "\<exists>v w'. getSetting k w = (Inr v, w')" by (rule no_throwD) (rule no_throw_getSetting)
  have 5: "\<exists>w'. setSetting k x w = (Inr (), w')"
    using no_throwD [OF no_throw_setSetting, of k x w] by simp
  have 6: "\<exists>s w'. getAllSettings w = (Inr s, w')" by (rule no_throwD) (rule no_throw_getAllSettings)
  have 7: "\<exists>w'. resetConversation u w = (Inr (), w')"
    using no_throwD [OF no_throw_resetConversation, of u w] by simp
  have 8: "sheets_client w \<and> \<not> succeeds 0 w \<longrightarrow>
      (m \<noteq> [] \<longrightarrow> hasMessage m w =
         (Inr False, w\<lparr>faults := tl (faults w), logged := logged w @ [Error ''hasMessage failed'']\<rparr>)) \<and>
      getSetting k w =
         (Inr None, w\<lparr>faults := tl (faults w), logged := logged w @ [Error ''getSetting failed'']\<rparr>) \<and>
      getAllSettings w =
         (Inr [], w\<lparr>faults := tl (faults w), logged := logged w @ [Error ''getAllSettings failed'']\<rparr>)"
    by (simp add: hasMessage_run getSetting_run getAllSettings_run)
  have 9: "sheets_client w \<and> \<not> succeeds 1 w \<longrightarrow>
      fst (getRecentConversation u n w) = Inr [] \<and>
      logged (snd (getRecentConversation u n w)) =
        logged (snd (getSetting (''reset:'' @ u) w)) @ [Error ''getRecentConversation failed'']"
    by (simp add: getRecentConversation_result getRecentConversation_logged)
  have mr: "sheets_client w \<and> \<not> succeeds 0 w \<and> succeeds 1 w \<longrightarrow>
      fst (getRecentConversation u n w) =
        Inr (map turn_of_row (slice (- n) (filter (\<lambda>r. at r 1 = Some u) (messages w)))) \<and>
      logged (snd (getRecentConversation u n w)) = logged w @ [Error ''getSetting failed'']"
    using getRecentConversation_unfiltered [of w u n] by blast
  have m: "messages (snd (ensureHeaders w)) = messages w"
    by (rule preservesD) (rule preserves_ensureHeaders, simp_all)
  have s: "settings (snd (ensureHeaders w)) = settings w"
    by (rule preservesD) (rule preserves_ensureHeaders, simp_all)
  have 10: "sheets_client w \<and> \<not> succeeds 0 (snd (ensureHeaders w)) \<longrightarrow>
      appendMessage u r c i w =
        (Inr (), (snd (ensureHeaders w))\<lparr>faults := tl (faults (snd (ensureHeaders w))),
           logged := logged (snd (ensureHeaders w)) @ [Error ''appendMessage failed'']\<rparr>) \<and>
      setSetting k x w =
        (Inr (), (snd (ensureHeaders w))\<lparr>faults := tl (faults (snd (ensureHeaders w))),
           logged := logged (snd (ensureHeaders w)) @ [Error ''setSetting failed'']\<rparr>) \<and>
      messages (snd (appendMessage u r c i w)) = messages w \<and>
      settings (snd (setSetting k x w)) = settings w"
    by (simp add: appendMessage_run setSetting_run Let_def m s)
  have 11: "sheets_client w \<and> \<not> (succeeds 0 (snd (ensureHeaders w)) \<and> succeeds 1 (snd (ensureHeaders w))) \<longrightarrow>
      logged (snd (setSetting k x w)) =
        logged (snd (ensureHeaders w)) @ [Error ''setSetting failed''] \<and>
      settings (snd (setSetting k x w)) = settings w \<and>
      logged (snd (resetConversation u w)) =
        logged (snd (ensureHeaders w)) @ [Error ''setSetting failed''] \<and>
      settings (snd (resetConversation u w)) = settings w"
    by (simp add: resetConversation_run setSetting_run Let_def s)
  have 12: "resetConversation u w = setSetting (''reset:'' @ u) (toISOString w (clock w)) w"
    by (rule resetConversation_run)
  have 13: "header_update w = (Inr (), w\<lparr>faults := tl (faults w)\<rparr>)"
    by (rule header_update_run)
  have 14: "sheets_client w \<and> \<not> succeeds 0 w \<longrightarrow>
      ensureSheetExists t w =
        (Inr (), w\<lparr>faults := tl (faults w),
                   logged := logged w @ [Error (''ensureSheetExists('' @ t @ '') failed'')]\<rparr>)"
    by (simp add: ensureSheetExists_run)
  have 15: "sheets_client w \<and> succeeds 0 w \<and> t \<notin> set (tabs w) \<and> \<not> succeeds 1 w \<longrightarrow>
      ensureSheetExists t w =
        (Inr (), w\<lparr>faults := tl (tl (faults w)),
                   logged := logged w @ [Error (''ensureSheetExists('' @ t @ '') failed'')]\<rparr>)"
    by (simp add: ensureSheetExists_run)
  from 1 2 3 4 5 6 7 8 9 mr 10 11 12 13 14 15 show ?thesis by (intro conjI)
qed

theorem store_never_raises_witness:
  "sheets_client store_outage \<and> \<not> succeeds 0 store_outage \<and> succeeds 1 store_outage \<and>
   \<not> succeeds 1 messages_outage \<and>
   sheets_client append_outage \<and> \<not> succeeds 0 (snd (ensureHeaders append_outage)) \<and>
   getSetting ''biz:name'' store_outage =
     (Inr None, store_outage\<lparr>faults := [], logged := [Error ''getSetting failed'']\<rparr>) \<and>
   logged (snd (getRecentConversation ''55501'' 12 store_outage)) = [Error ''getSetting failed''] \<and>
   ensureSheetExists ''facts'' store_outage =
     (Inr (), store_outage\<lparr>faults := [], logged := [Error ''ensureSheetExists(facts) failed'']\<rparr>) \<and>
   fst (getRecentConversation ''55501'' 12 messages_outage) = Inr [] \<and>
   appendMessage ''55501'' ''user'' ''Hello'' (Some ''wamid.2'') append_outage =
     (Inr (), append_outage\<lparr>faults := [], logged := [Error ''appendMessage failed'']\<rparr>)"
proof -
  have a: "sheets_client store_outage" "\<not> succeeds 0 store_outage" "succeeds 1 store_outage"
    "faults store_outage = [Some (RequestError (Some 503) ''The service is unavailable'')]"
    "logged store_outage = []"
    by (simp_all add: store_outage_def returning_customer_def shop_def succeeds_def)
  have b: "sheets_client messages_outage" "\<not> succeeds 1 messages_outage"
    by (simp_all add: messages_outage_def returning_customer_def shop_def succeeds_def)
  have c: "sheets_client append_outage" "\<not> succeeds 0 (snd (ensureHeaders append_outage))"
    "logged append_outage = []"
    by (simp_all add: ensureHeaders_append_outage succeeds_def)
       (simp_all add: append_outage_def returning_customer_def shop_def)
  note t1 = store_never_raises [where w = store_outage and m = "''wamid.1''" and u = "''55501''"
      and n = 12 and k = "''biz:name''" and t = "''facts''"]
  from t1 a have 1: "getSetting ''biz:name'' store_outage =
     (Inr None, store_outage\<lparr>faults := [], logged := [Error ''getSetting failed'']\<rparr>)"
    by simp
  from t1 a have 2: "logged (snd (getRecentConversation ''55501'' 12 store_outage)) =
     [Error ''getSetting failed'']"
    by simp
  from t1 a have 3: "ensureSheetExists ''facts'' store_outage =
     (Inr (), store_outage\<lparr>faults := [], logged := [Error ''ensureSheetExists(facts) failed'']\<rparr>)"
    by simp
  from store_never_raises [where w = messages_outage and u = "''55501''" and n = 12]
    b have 4: "fst (getRecentConversation ''55501'' 12 messages_outage) = Inr []"
    by simp
  from store_never_raises [where w = append_outage and u = "''55501''" and r = "''user''"
      and c = "''Hello''" and i = "Some ''wamid.2''"]
    c have 5: "appendMessage ''55501'' ''user'' ''Hello'' (Some ''wamid.2'') append_outage =
     (Inr (), append_outage\<lparr>faults := [], logged := [Error ''appendMessage failed'']\<rparr>)"
    by (simp add: ensureHeaders_append_outage)
  from a(1-3) b(2) c(1,2) 1 2 3 4 5 show ?thesis by (intro conjI)
qed

text \<open>
  A rejected header write leaves no trace in the log and the row is appended all the
  same; after a reset, a rejected read of the marker gives the turns from before the
  reset, not the empty sequence.
\<close>

theorem store_never_raises_counterexample:
  "faults header_outage =
     [None, None, None, Some (RequestError (Some 503) ''The service is unavailable'')] \<and>
   logged header_outage = [] \<and>
   fst (appendMessage ''55501'' ''user'' ''Hello'' (Some ''wamid.2'') header_outage) = Inr () \<and>
   faults (snd (appendMessage ''55501'' ''user'' ''Hello'' (Some ''wamid.2'') header_outage)) = [] \<and>
   logged (snd (appendMessage ''55501'' ''user'' ''Hello'' (Some ''wamid.2'') header_outage)) = [] \<and>
   length (messages (snd (appendMessage ''55501'' ''user'' ''Hello'' (Some ''wamid.2'') header_outage))) = 3 \<and>
   faults marker_read_outage = [Some (RequestError (Some 503) ''The service is unavailable'')] \<and>
   lookup_setting ''reset:55501'' (settings marker_read_outage) = Some ''2024-01-01T00:01:00.000Z'' \<and>
   fst (getRecentConversation ''55501'' 12 marker_read_outage) =
     Inr [\<lparr>role = ''user'', content = ''What are your hours?''\<rparr>,
          \<lparr>role = ''assistant'', content = ''We are open 9 to 5.''\<rparr>]"
  by code_simp

section \<open>The handler\<close>

text \<open>
  C6. For every implementation of the store and of the completion client,
  \<open>handleUserMessage\<close> resolves: no exception leaves it. When a step of its \<open>try\<close> block
  throws, it logs the error and then runs \<open>sendMessage\<close> with the apology for the user,
  which itself never rejects.
\<close>

theorem handleUserMessage_never_raises:
  "(\<exists>w'. handleUserMessage C number message msgId w = (Inr (), w')) \<and>
   (handleUserMessage_try C number message msgId w = (Inl e, w1) \<longrightarrow>
      handleUserMessage C number message msgId w =
        sendMessage number ''Sorry, I could not process your request.''
          (w1\<lparr>logged := logged w1 @ [Error ''Error handling user message:'']\<rparr>))"
proof -
  have "\<exists>w'. handleUserMessage C number message msgId w = (Inr (), w')"
    using no_throwD [OF no_throw_handleUserMessage, of C number message msgId w] by simp
  moreover have "handleUserMessage_try C number message msgId w = (Inl e, w1) \<longrightarrow>
      handleUserMessage C number message msgId w =
        sendMessage number ''Sorry, I could not process your request.''
          (w1\<lparr>logged := logged w1 @ [Error ''Error handling user message:'']\<rparr>)"
    by (simp add: handleUserMessage_def try_catch_def bind_def logger_def modify_def)
  ultimately show ?thesis by simp
qed

lemma shop_credentials: "credentials shop"
  by code_simp

theorem handleUserMessage_never_raises_witness:
  "handleUserMessage_try broken_store ''55501'' ''Hello'' (Some ''wamid.2'') shop =
     (Inl (TypeError ''append failed''), shop) \<and>
   fst (handleUserMessage broken_store ''55501'' ''Hello'' (Some ''wamid.2'') shop) = Inr () \<and>
   logged (snd (handleUserMessage broken_store ''55501'' ''Hello'' (Some ''wamid.2'') shop)) =
     [Error ''Error handling user message:'', Log ''WhatsApp send ok: 200''] \<and>
   map (\<lambda>r. (req_to r, req_body r))
     (axios_requests (snd (handleUserMessage broken_store ''55501'' ''Hello'' (Some ''wamid.2'') shop))) =
     [(''55501'', ''Sorry, I could not process your request.'')]"
proof -
  have h: "hasMessage ''wamid.2'' shop = (Inr False, shop)"
    by (simp add: hasMessage_run succeeds_def shop_def)
  have t: "handleUserMessage_try broken_store ''55501'' ''Hello'' (Some ''wamid.2'') shop =
     (Inl (TypeError ''append failed''), shop)"
    by (simp add: handleUserMessage_try_def broken_store_def services_def falsy_def to_string_def
        bind_def h throw_def)
  have c: "credentials (shop\<lparr>logged := logged shop @ [Error ''Error handling user message:'']\<rparr>)"
    using shop_credentials by (simp add: credentials_def)
  have d: "strip_non_digits ''55501'' \<noteq> []" by (simp add: strip_non_digits_def is_digit_def)
  have n: "show_nat 200 = ''200''" by code_simp
  from handleUserMessage_never_raises [of broken_store "''55501''" "''Hello''" "Some ''wamid.2''" shop
      "TypeError ''append failed''" shop] t
  have "handleUserMessage broken_store ''55501'' ''Hello'' (Some ''wamid.2'') shop =
        sendMessage ''55501'' ''Sorry, I could not process your request.''
          (shop\<lparr>logged := logged shop @ [Error ''Error handling user message:'']\<rparr>)"
    by blast
  with sendMessage_delivers [OF c d, of "''Sorry, I could not process your request.''"] t
  show ?thesis
    by (simp add: config_of_simps) (simp add: shop_def strip_non_digits_def is_digit_def n)
qed

section \<open>The prompt\<close>

lemma replace_first_prefix:
  "startsWith k p \<Longrightarrow> replace_first p r k = r @ drop (length p) k"
  by (cases k) (auto simp: startsWith_def)

lemma bizEntries_eq:
  "bizEntries s =
     map (\<lambda>(k, v). map (\<lambda>c. if c = CHR ''_'' then CHR 0x20 else c) (drop 4 k) @ '': '' @ v)
       (filter (\<lambda>(k, v). startsWith k ''biz:'') s)"
proof -
  have "replace_underscores (replace_first ''biz:'' [] k) =
        map (\<lambda>c. if c = CHR ''_'' then CHR 0x20 else c) (drop 4 k)"
    if "startsWith k ''biz:''" for k
    using replace_first_prefix [OF that, of "[]"] by (simp add: replace_underscores_def eval_nat_numeral)
  then show ?thesis
    unfolding bizEntries_def by (intro map_cong refl) auto
qed

lemma bizEntries_empty_iff:
  "bizEntries s = [] \<longleftrightarrow> (\<forall>(k, v)\<in>set s. \<not> startsWith k ''biz:'')"
  by (auto simp: bizEntries_def filter_empty_conv)

lemma prompt_of_plain: "bizEntries s = [] \<Longrightarrow> prompt_of s message = message"
  by (simp add: prompt_of_def bizContext_def)

lemma prompt_of_facts:
  "bizEntries s \<noteq> [] \<Longrightarrow>
   prompt_of s message =
     ''Business facts '' @ [CHR 0xE2, CHR 0x80, CHR 0x94] @ '' '' @ join '' | '' (bizEntries s)
       @ [CHR 0x0A, CHR 0x0A] @ ''User: '' @ message"
  by (simp add: prompt_of_def bizContext_def)

lemma generateOpenAIResponse_request:
  "openai_requests (snd (generateOpenAIResponse p h w)) = openai_requests w @ [chat_messages p h]"
  by (auto simp: generateOpenAIResponse_def generateOpenAIResponse_try_def try_catch_def bind_def
      openai_chat_def first_content_def throw_def ret_def logger_def modify_def
      split: sum.splits option.splits prod.splits)

lemma services_sel:
  "sheets_hasMessage services = hasMessage"
  "sheets_appendMessage services = appendMessage"
  "sheets_getRecentConversation services = getRecentConversation"
  "sheets_getAllSettings services = getAllSettings"
  "openai_generateOpenAIResponse services = generateOpenAIResponse"
  by (simp_all add: services_def)

text \<open>
  The handler drops a message exactly when its id is not empty, the store is configured,
  the read of the duplicate check succeeds and a stored row carries the id. A dropped
  message makes no request to the completion client.
\<close>

lemma dropped_iff:
  "dropped msgId w =
     (\<exists>m. msgId = Some m \<and> m \<noteq> [] \<and> sheets_client w \<and> succeeds 0 w \<and>
          (\<exists>r\<in>set (messages w). at r 4 = Some m))"
  by (cases msgId) (auto simp: dropped_def falsy_def ret_def hasMessage_run to_string_def)

lemma dropped_request:
  assumes "dropped msgId w"
  shows "openai_requests (snd (handleUserMessage services number message msgId w)) = openai_requests w"
proof -
  let ?check = "if falsy msgId then ret False else hasMessage (to_string msgId)"
  have "no_throw ?check" by (intro no_throw_if no_throw_ret no_throw_hasMessage)
  from no_throwD [OF this, of w] assms obtain w1 where 1: "?check w = (Inr True, w1)"
    by (auto simp: dropped_def)
  have "preserves openai_requests ?check"
    by (intro preserves_if preserves_ret preserves_hasMessage) simp_all
  from preservesD [OF this, of w] 1 have f1: "openai_requests w1 = openai_requests w" by simp
  have "handleUserMessage_try services number message msgId w =
          logger (Warn (''Duplicate message ignored: '' @ to_string msgId)) w1"
    unfolding handleUserMessage_try_def services_sel
    by (simp add: bind_def 1 split del: if_split)
  then have "openai_requests (snd (handleUserMessage_try services number message msgId w)) = openai_requests w"
    and "\<exists>w2. handleUserMessage_try services number message msgId w = (Inr (), w2)"
    using f1 by (simp_all add: logger_def modify_def)
  then show ?thesis by (auto simp: handleUserMessage_def try_catch_def)
qed

text \<open>
  A message that is not dropped makes the handler send exactly one request to the
  completion client. Its last message is the prompt assembled from the message and from
  the record \<open>getAllSettings\<close> returned: the settings of the sheet when the store is
  configured and the read of the settings succeeds, the empty record otherwise (the
  \<open>catch\<close> of \<open>getAllSettings\<close>). The history of the request is the one
  \<open>getRecentConversation\<close> returned after the message was stored.
\<close>

lemma pipeline_request:
  assumes new: "\<not> dropped msgId w"
  shows "openai_requests (snd (handleUserMessage services number message msgId w)) =
           openai_requests w @
           [chat_messages
              (prompt_of (if sheets_client w \<and> succeeds 0 (settings_read number message msgId w)
                          then settings_map [] (settings w) else []) message)
              (Some (fetched_history number message msgId w))]"
proof -
  let ?f = "\<lambda>w. (settings w, openai_requests w, sheets_client w)"
  let ?check = "if falsy msgId then ret False else hasMessage (to_string msgId)"
  have "no_throw ?check" by (intro no_throw_if no_throw_ret no_throw_hasMessage)
  from no_throwD [OF this, of w] new have "\<exists>w1. ?check w = (Inr False, w1)"
    by (auto simp: dropped_def)
  then obtain w1 where 1: "?check w = (Inr False, w1)" by blast
  then have c1: "checked msgId w = w1" by (simp add: checked_def)
  have "preserves ?f ?check"
    by (intro preserves_if preserves_ret preserves_hasMessage) simp_all
  from preservesD [OF this, of w] 1 have f1: "?f w1 = ?f w" by simp
  obtain w2 where 2: "appendMessage number ''user'' message msgId w1 = (Inr (), w2)"
    using no_throwD [OF no_throw_appendMessage, of number "''user''" message msgId w1] by auto
  with c1 have c2: "persisted number message msgId w = w2" by (simp add: persisted_def)
  have "preserves ?f (appendMessage number ''user'' message msgId)"
    by (rule preserves_appendMessage) simp_all
  from preservesD [OF this, of w1] 2 f1 have f2: "?f w2 = ?f w" by simp
  obtain h w3 where 3: "getRecentConversation number 12 w2 = (Inr h, w3)"
    using no_throwD [OF no_throw_getRecentConversation, of number 12 w2] by auto
  with c2 have c3: "fetched_history number message msgId w = h"
    "settings_read number message msgId w = w3"
    by (simp_all add: fetched_history_def settings_read_def)
  have "preserves ?f (getRecentConversation number 12)"
    by (rule preserves_getRecentConversation) simp_all
  from preservesD [OF this, of w2] 3 f2 have f3: "?f w3 = ?f w" by simp
  let ?s = "if sheets_client w \<and> succeeds 0 w3 then settings_map [] (settings w) else []"
  from f3 have "\<exists>w4. getAllSettings w3 = (Inr ?s, w4)"
    by (auto simp: getAllSettings_run)
  then obtain w4 where 4: "getAllSettings w3 = (Inr ?s, w4)" by blast
  have "preserves ?f getAllSettings"
    by (rule preserves_getAllSettings) simp_all
  from preservesD [OF this, of w3] 4 f3 have f4: "?f w4 = ?f w" by simp
  obtain reply w5 where 5: "generateOpenAIResponse (prompt_of ?s message) (Some h) w4 = (Inr reply, w5)"
    using no_throwD [OF no_throw_generateOpenAIResponse, of "prompt_of ?s message" "Some h" w4] by auto
  from generateOpenAIResponse_request [of "prompt_of ?s message" "Some h" w4] 5 f4
  have f5: "openai_requests w5 = openai_requests w @ [chat_messages (prompt_of ?s message) (Some h)]"
    by simp
  obtain w6 where 6: "appendMessage number ''assistant'' reply None w5 = (Inr (), w6)"
    using no_throwD [OF no_throw_appendMessage, of number "''assistant''" reply None w5] by auto
  have "preserves openai_requests (appendMessage number ''assistant'' reply None)"
    by (rule preserves_appendMessage) simp_all
  from preservesD [OF this, of w5] 6 have f6: "openai_requests w6 = openai_requests w5" by simp
  obtain w7 where 7: "sendMessage number reply w6 = (Inr (), w7)"
    using no_throwD [OF no_throw_sendMessage, of number reply w6] by auto
  have "preserves openai_requests (sendMessage number reply)"
    by (rule preserves_sendMessage) simp_all
  from preservesD [OF this, of w6] 7 have f7: "openai_requests w7 = openai_requests w6" by simp
  have "handleUserMessage_try services number message msgId w = (Inr (), w7)"
    unfolding handleUserMessage_try_def services_sel
    by (simp add: bind_def 1 2 3 4 5 6 7 split del: if_split)
  then have "handleUserMessage services number message msgId w = (Inr (), w7)"
    by (simp add: handleUserMessage_def try_catch_def)
  with f5 f6 f7 c3 show ?thesis by simp
qed

text \<open>
  C2, as the code has it. With the settings \<open>biz:name = Acme\<close> and \<open>biz:hours = 9to5\<close>
  and the message \<open>Hi\<close> the prompt is \<open>Business facts\<close>, a dash,
  \<open>name: Acme | hours: 9to5\<close>, two newlines and \<open>User: Hi\<close>; the two rows of the sheet
  are read as these two settings. When no key starts with \<open>biz:\<close> the prompt is the
  message. Otherwise it is the line of business facts, built from the \<open>biz:\<close> entries in
  order (prefix dropped, underscores turned into spaces, a colon and the value, joined with
  \<open> | \<close>), a blank line and \<open>User: \<close> with the message. For an inbound message the
  handler drops as a duplicate, no prompt is passed to the completion client. For every
  other inbound message, when the store is configured and the read of the settings
  succeeds, the prompt passed to the completion client is the one assembled from the
  settings of the sheet; when the store is not configured or that read is rejected, the
  prompt passed is the raw message, whatever the sheet holds.
\<close>

theorem prompt_assembly:
  "prompt_of [(''biz:name'', ''Acme''), (''biz:hours'', ''9to5'')] ''Hi'' =
     ''Business facts '' @ [CHR 0xE2, CHR 0x80, CHR 0x94] @ '' name: Acme | hours: 9to5''
       @ [CHR 0x0A, CHR 0x0A] @ ''User: Hi'' \<and>
   settings_map [] [[''biz:name'', ''Acme''], [''biz:hours'', ''9to5'']] =
     [(''biz:name'', ''Acme''), (''biz:hours'', ''9to5'')] \<and>
   ((\<forall>(k, v)\<in>set s. \<not> startsWith k ''biz:'') \<longrightarrow> prompt_of s message = message) \<and>
   ((\<exists>(k, v)\<in>set s. startsWith k ''biz:'') \<longrightarrow>
      prompt_of s message =
        ''Business facts '' @ [CHR 0xE2, CHR 0x80, CHR 0x94] @ '' '' @
        join '' | ''
          (map (\<lambda>(k, v). map (\<lambda>c. if c = CHR ''_'' then CHR 0x20 else c) (drop 4 k) @ '': '' @ v)
             (filter (\<lambda>(k, v). startsWith k ''biz:'') s))
        @ [CHR 0x0A, CHR 0x0A] @ ''User: '' @ message) \<and>
   (dropped msgId w \<longrightarrow>
      openai_requests (snd (handleUserMessage services number message msgId w)) =
        openai_requests w) \<and>
   (\<not> dropped msgId w \<and> sheets_client w \<and>
    succeeds 0 (settings_read number message msgId w) \<longrightarrow>
      openai_requests (snd (handleUserMessage services number message msgId w)) =
        openai_requests w @
        [chat_messages (prompt_of (settings_map [] (settings w)) message)
           (Some (fetched_history number message msgId w))]) \<and>
   (\<not> dropped msgId w \<and>
    \<not> (sheets_client w \<and> succeeds 0 (settings_read number message msgId w)) \<longrightarrow>
      openai_requests (snd (handleUserMessage services number message msgId w)) =
        openai_requests w @
        [chat_messages message (Some (fetched_history number message msgId w))])"
proof -
  have 1: "prompt_of [(''biz:name'', ''Acme''), (''biz:hours'', ''9to5'')] ''Hi'' =
     ''Business facts '' @ [CHR 0xE2, CHR 0x80, CHR 0x94] @ '' name: Acme | hours: 9to5''
       @ [CHR 0x0A, CHR 0x0A] @ ''User: Hi''"
    by (simp add: prompt_of_def bizContext_def bizEntries_def startsWith_def replace_underscores_def)
  have 2: "(\<forall>(k, v)\<in>set s. \<not> startsWith k ''biz:'') \<longrightarrow> prompt_of s message = message"
    using prompt_of_plain [of s message] by (simp add: bizEntries_empty_iff)
  have 3: "(\<exists>(k, v)\<in>set s. startsWith k ''biz:'') \<longrightarrow>
      prompt_of s message =
        ''Business facts '' @ [CHR 0xE2, CHR 0x80, CHR 0x94] @ '' '' @
        join '' | ''
          (map (\<lambda>(k, v). map (\<lambda>c. if c = CHR ''_'' then CHR 0x20 else c) (drop 4 k) @ '': '' @ v)
             (filter (\<lambda>(k, v). startsWith k ''biz:'') s))
        @ [CHR 0x0A, CHR 0x0A] @ ''User: '' @ message"
  proof
    assume "\<exists>(k, v)\<in>set s. startsWith k ''biz:''"
    then have "bizEntries s \<noteq> []" using bizEntries_empty_iff [of s] by auto
    from prompt_of_facts [OF this, of message] show "prompt_of s message =
        ''Business facts '' @ [CHR 0xE2, CHR 0x80, CHR 0x94] @ '' '' @
        join '' | ''
          (map (\<lambda>(k, v). map (\<lambda>c. if c = CHR ''_'' then CHR 0x20 else c) (drop 4 k) @ '': '' @ v)
             (filter (\<lambda>(k, v). startsWith k ''biz:'') s))
        @ [CHR 0x0A, CHR 0x0A] @ ''User: '' @ message"
      by (simp only: bizEntries_eq)
  qed
  have 4: "settings_map [] [[''biz:name'', ''Acme''], [''biz:hours'', ''9to5'']] =
     [(''biz:name'', ''Acme''), (''biz:hours'', ''9to5'')]"
    by (simp add: at_def str_or_def)
  have e: "prompt_of [] message = message" by (simp add: prompt_of_plain bizEntries_def)
  have 7: "dropped msgId w \<longrightarrow>
      openai_requests (snd (handleUserMessage services number message msgId w)) =
        openai_requests w"
    using dropped_request [of msgId w number message] by simp
  have 5: "\<not> dropped msgId w \<and> sheets_client w \<and>
    succeeds 0 (settings_read number message msgId w) \<longrightarrow>
      openai_requests (snd (handleUserMessage services number message msgId w)) =
        openai_requests w @
        [chat_messages (prompt_of (settings_map [] (settings w)) message)
           (Some (fetched_history number message msgId w))]"
    using pipeline_request [of msgId w number message] by simp
  have 6: "\<not> dropped msgId w \<and>
    \<not> (sheets_client w \<and> succeeds 0 (settings_read number message msgId w)) \<longrightarrow>
      openai_requests (snd (handleUserMessage services number message msgId w)) =
        openai_requests w @
        [chat_messages message (Some (fetched_history number message msgId w))]"
    using pipeline_request [of msgId w number message] e by auto
  from 1 4 2 3 7 5 6 show ?thesis by (intro conjI)
qed

theorem prompt_assembly_witness:
  "\<not> startsWith ''greeting'' ''biz:'' \<and>
   prompt_of [(''greeting'', ''Hello'')] ''Hi'' = ''Hi'' \<and>
   startsWith ''biz:opening_hours'' ''biz:'' \<and>
   prompt_of [(''biz:opening_hours'', ''9to5'')] ''Hi'' =
     ''Business facts '' @ [CHR 0xE2, CHR 0x80, CHR 0x94] @ '' opening hours: 9to5''
       @ [CHR 0x0A, CHR 0x0A] @ ''User: Hi'' \<and>
   messages shop = [] \<and> sheets_client shop \<and>
   settings shop = [[''biz:name'', ''Acme''], [''biz:hours'', ''9to5'']] \<and>
   succeeds 0 (settings_read ''55501'' ''Hi'' (Some ''wamid.1'') shop) \<and>
   map content (last (openai_requests
       (snd (handleUserMessage services ''55501'' ''Hi'' (Some ''wamid.1'') shop)))) =
     [''You are a helpful WhatsApp assistant. Keep replies short and clear.'', ''Hi'',
      ''Business facts '' @ [CHR 0xE2, CHR 0x80, CHR 0x94] @ '' name: Acme | hours: 9to5''
       @ [CHR 0x0A, CHR 0x0A] @ ''User: Hi''] \<and>
   messages settings_outage = [] \<and> sheets_client settings_outage \<and>
   \<not> succeeds 0 (settings_read ''55501'' ''Hi'' (Some ''wamid.1'') settings_outage) \<and>
   map content (last (openai_requests
       (snd (handleUserMessage services ''55501'' ''Hi'' (Some ''wamid.1'') settings_outage)))) =
     [''You are a helpful WhatsApp assistant. Keep replies short and clear.'', ''Hi'', ''Hi''] \<and>
   dropped (Some ''wamid.1'') returning_customer \<and>
   openai_requests
     (snd (handleUserMessage services ''55501'' ''What are your hours?'' (Some ''wamid.1'')
            returning_customer)) = []"
proof -
  have a: "\<forall>(k, v)\<in>set [(''greeting'', ''Hello'')]. \<not> startsWith k ''biz:''"
    by (simp add: startsWith_def)
  have b: "\<exists>(k, v)\<in>set [(''biz:opening_hours'', ''9to5'')]. startsWith k ''biz:''"
    by (simp add: startsWith_def)
  have c: "\<not> dropped (Some ''wamid.1'') shop" "\<not> dropped (Some ''wamid.1'') settings_outage"
    by (simp_all add: dropped_iff shop_def settings_outage_def)
  have k: "dropped (Some ''wamid.1'') returning_customer"
    by (simp add: dropped_iff returning_customer_def shop_def succeeds_def at_def)
  have o: "openai_requests returning_customer = []"
    by (simp add: returning_customer_def shop_def)
  have d: "sheets_client shop" "settings shop = [[''biz:name'', ''Acme''], [''biz:hours'', ''9to5'']]"
    "openai_requests shop = []" "messages shop = []"
    "sheets_client settings_outage" "openai_requests settings_outage = []"
    "messages settings_outage = []"
    by (simp_all add: shop_def settings_outage_def)
  have r: "succeeds 0 (settings_read ''55501'' ''Hi'' (Some ''wamid.1'') shop)"
    "\<not> succeeds 0 (settings_read ''55501'' ''Hi'' (Some ''wamid.1'') settings_outage)"
    by code_simp+
  have h: "map content (fetched_history ''55501'' ''Hi'' (Some ''wamid.1'') shop) = [''Hi'']"
    "map content (fetched_history ''55501'' ''Hi'' (Some ''wamid.1'') settings_outage) = [''Hi'']"
    by code_simp+
  have f: "\<not> startsWith ''greeting'' ''biz:''" "startsWith ''biz:opening_hours'' ''biz:''"
    by (simp_all add: startsWith_def)
  note t = prompt_assembly [where msgId = "Some ''wamid.1''" and number = "''55501''" and message = "''Hi''"]
  from t [where s = "[(''greeting'', ''Hello'')]" and w = shop] a
  have 1: "prompt_of [(''greeting'', ''Hello'')] ''Hi'' = ''Hi''" by blast
  from t [where s = "[(''biz:opening_hours'', ''9to5'')]" and w = shop] b
  have 2: "prompt_of [(''biz:opening_hours'', ''9to5'')] ''Hi'' =
     ''Business facts '' @ [CHR 0xE2, CHR 0x80, CHR 0x94] @ '' opening hours: 9to5''
       @ [CHR 0x0A, CHR 0x0A] @ ''User: Hi''"
    by (simp add: startsWith_def)
  from t [where s = "[]" and w = shop] c(1) d(1) r(1)
  have "openai_requests (snd (handleUserMessage services ''55501'' ''Hi'' (Some ''wamid.1'') shop)) =
        openai_requests shop @
        [chat_messages (prompt_of (settings_map [] (settings shop)) ''Hi'')
           (Some (fetched_history ''55501'' ''Hi'' (Some ''wamid.1'') shop))]"
    by blast
  moreover from t [where s = "[]" and w = shop]
  have "prompt_of (settings_map [] (settings shop)) ''Hi'' =
     ''Business facts '' @ [CHR 0xE2, CHR 0x80, CHR 0x94] @ '' name: Acme | hours: 9to5''
       @ [CHR 0x0A, CHR 0x0A] @ ''User: Hi''"
    by (simp add: d(2))
  ultimately have 3: "map content (last (openai_requests
       (snd (handleUserMessage services ''55501'' ''Hi'' (Some ''wamid.1'') shop)))) =
     [''You are a helpful WhatsApp assistant. Keep replies short and clear.'', ''Hi'',
      ''Business facts '' @ [CHR 0xE2, CHR 0x80, CHR 0x94] @ '' name: Acme | hours: 9to5''
       @ [CHR 0x0A, CHR 0x0A] @ ''User: Hi'']"
    using h(1) by (auto simp: chat_messages_def d(3))
  from t [where s = "[]" and w = settings_outage] c(2) r(2)
  have "openai_requests (snd (handleUserMessage services ''55501'' ''Hi'' (Some ''wamid.1'') settings_outage)) =
        openai_requests settings_outage @
        [chat_messages ''Hi'' (Some (fetched_history ''55501'' ''Hi'' (Some ''wamid.1'') settings_outage))]"
    by blast
  then have 4: "map content (last (openai_requests
       (snd (handleUserMessage services ''55501'' ''Hi'' (Some ''wamid.1'') settings_outage)))) =
     [''You are a helpful WhatsApp assistant. Keep replies short and clear.'', ''Hi'', ''Hi'']"
    using h(2) by (auto simp: chat_messages_def d(6))
  from prompt_assembly [where msgId = "Some ''wamid.1''" and number = "''55501''"
      and message = "''What are your hours?''" and s = "[]" and w = returning_customer] k o
  have 5: "openai_requests
     (snd (handleUserMessage services ''55501'' ''What are your hours?'' (Some ''wamid.1'')
            returning_customer)) = []"
    by simp
  from f 1 2 d(4,1,2) r(1) 3 d(7,5) r(2) 4 k 5 show ?thesis by (intro conjI)
qed

text \<open>
  The prompt does not carry the business facts of the sheet for every inbound message:
  with the read of the settings rejected, the sheet holds \<open>biz:name = Acme\<close> and
  \<open>biz:hours = 9to5\<close>, the message is \<open>Hi\<close>, and the prompt passed to the completion
  client is the bare \<open>Hi\<close>.
\<close>

theorem prompt_assembly_counterexample:
  "settings settings_outage = [[''biz:name'', ''Acme''], [''biz:hours'', ''9to5'']] \<and>
   messages settings_outage = [] \<and>
   map content (last (openai_requests
       (snd (handleUserMessage services ''55501'' ''Hi'' (Some ''wamid.1'') settings_outage)))) =
     [''You are a helpful WhatsApp assistant. Keep replies short and clear.'', ''Hi'', ''Hi'']"
  by code_simp

section \<open>Resetting a conversation\<close>

lemma with_setting_Nil: "with_setting k x [] = [[k, x]]"
  by (simp add: with_setting_def)

lemma find_index_from_Suc:
  "find_index_from (Suc i) P xs = map_option Suc (find_index_from i P xs)"
  by (induction xs arbitrary: i) simp_all

lemma with_setting_Cons:
  "with_setting k x (r # rs) = (if at r 0 = Some k then [k, x] # rs else r # with_setting k x rs)"
  by (simp add: with_setting_def find_index_from_Suc split: option.splits)

lemma lookup_with_setting: "lookup_setting k (with_setting k x rows) = Some x"
  by (induction rows) (simp_all add: with_setting_Nil with_setting_Cons lookup_setting_def at_def)

lemma lookup_with_setting_other:
  "k' \<noteq> k \<Longrightarrow> lookup_setting k' (with_setting k x rows) = lookup_setting k' rows"
  by (induction rows) (simp_all add: with_setting_Nil with_setting_Cons lookup_setting_def at_def)

lemma preserves_handleUserMessage:
  assumes "\<And>w v. f (w\<lparr>faults := v\<rparr>) = f w" "\<And>w v. f (w\<lparr>logged := v\<rparr>) = f w"
    "\<And>w v. f (w\<lparr>tabs := v\<rparr>) = f w" "\<And>w v. f (w\<lparr>messages := v\<rparr>) = f w"
    "\<And>w v. f (w\<lparr>openai_requests := v\<rparr>) = f w" "\<And>w v. f (w\<lparr>axios_requests := v\<rparr>) = f w"
  shows "preserves f (handleUserMessage services number message msgId)"
  unfolding handleUserMessage_def handleUserMessage_try_def services_sel
  by (intro preserves_intros preserves_logger preserves_hasMessage preserves_appendMessage
      preserves_getRecentConversation preserves_getAllSettings preserves_generateOpenAIResponse
      preserves_sendMessage assms)

lemma marker_kept_frame:
  assumes "preserves (\<lambda>w. (sheets_client w, Date_parse w, settings w)) m"
  shows "marker_kept u w (snd (m w))"
  using preservesD [OF assms, of w] by (simp add: marker_kept_def)

lemma marker_kept_reset:
  assumes "v \<noteq> u"
  shows "marker_kept u w (snd (resetConversation v w))"
proof -
  have "preserves (\<lambda>w. (sheets_client w, Date_parse w)) (setSetting (''reset:'' @ v) x)" for x
    by (rule preserves_setSetting) simp_all
  from preservesD [OF this, of _ w]
  have a: "sheets_client (snd (resetConversation v w)) = sheets_client w"
    "Date_parse (snd (resetConversation v w)) = Date_parse w"
    by (simp_all add: resetConversation_run)
  have s: "settings (snd (ensureHeaders w)) = settings w"
    by (rule preservesD) (rule preserves_ensureHeaders, simp_all)
  from assms have "lookup_setting (''reset:'' @ u) (settings (snd (resetConversation v w))) =
        lookup_setting (''reset:'' @ u) (settings w)"
    by (simp add: resetConversation_run setSetting_run Let_def s lookup_with_setting_other)
  with a show ?thesis by (simp add: marker_kept_def)
qed

lemma marker_kept_after:
  assumes "e \<noteq> Reset u"
  shows "marker_kept u w (after e w)"
proof (cases e)
  case (Tick c fs)
  then show ?thesis by (simp add: marker_kept_def)
next
  case (Append a b c d)
  have "marker_kept u w (snd (appendMessage a b c d w))"
    by (rule marker_kept_frame) (rule preserves_appendMessage, simp_all)
  with Append show ?thesis by simp
next
  case (Handle a b c)
  have "marker_kept u w (snd (handleUserMessage services a b c w))"
    by (rule marker_kept_frame) (rule preserves_handleUserMessage, simp_all)
  with Handle show ?thesis by simp
next
  case (Recent a n)
  have "marker_kept u w (snd (getRecentConversation a n w))"
    by (rule marker_kept_frame) (rule preserves_getRecentConversation, simp_all)
  with Recent show ?thesis by simp
next
  case (Reset v)
  with assms have "v \<noteq> u" by simp
  from marker_kept_reset [OF this] Reset show ?thesis by simp
qed

lemma marker_kept_trans: "marker_kept u w w1 \<Longrightarrow> marker_kept u w1 w2 \<Longrightarrow> marker_kept u w w2"
  by (simp add: marker_kept_def)

lemma marker_kept_run:
  "\<forall>e\<in>set es. e \<noteq> Reset u \<Longrightarrow> marker_kept u w (run_events es w)"
proof (induction es arbitrary: w)
  case Nil
  show ?case by (simp add: marker_kept_def)
next
  case (Cons e es)
  from Cons.prems have "marker_kept u w (after e w)" by (simp add: marker_kept_after)
  moreover from Cons have "marker_kept u (after e w) (run_events es (after e w))" by simp
  ultimately show ?case using marker_kept_trans by simp
qed

lemma resetConversation_marker:
  assumes "sheets_client w" "succeeds 0 (snd (ensureHeaders w))" "succeeds 1 (snd (ensureHeaders w))"
  shows "sheets_client (snd (resetConversation u w)) \<and>
         Date_parse (snd (resetConversation u w)) = Date_parse w \<and>
         lookup_setting (''reset:'' @ u) (settings (snd (resetConversation u w))) =
           Some (toISOString w (clock w))"
proof -
  have "preserves (\<lambda>w. (sheets_client w, Date_parse w)) (setSetting (''reset:'' @ u) x)" for x
    by (rule preserves_setSetting) simp_all
  from preservesD [OF this, of _ w] assms(1)
  have a: "sheets_client (snd (resetConversation u w))"
    "Date_parse (snd (resetConversation u w)) = Date_parse w"
    by (simp_all add: resetConversation_run)
  from assms have "lookup_setting (''reset:'' @ u) (settings (snd (resetConversation u w))) =
           Some (toISOString w (clock w))"
    by (simp add: resetConversation_run setSetting_run Let_def lookup_with_setting)
  with a show ?thesis by simp
qed

lemma qualifies_after_cutoff:
  assumes "Date_parse w2 = Date_parse w" "T \<noteq> 0" "qualifies w2 u (Some T) r"
  shows "\<exists>t. Date_parse w (to_string (at r 0)) = Some t \<and> T < t"
  using assms by (auto simp: qualifies_def falsy_num_def js_gt_def split: option.splits)

lemma recentRows_subset: "set (recentRows w u n t rows) \<subseteq> set (filter (qualifies w u t) rows)"
  unfolding recentRows_def by (rule set_mono_suffix) (rule slice_suffix)

lemma cutoff_from_kept:
  "cutoff_from u T w w1 \<Longrightarrow> marker_kept u w1 w2 \<Longrightarrow> cutoff_from u T w w2"
  by (auto simp: cutoff_from_def marker_kept_def)

lemma resetConversation_unwritten:
  assumes "\<not> marker_written w"
  shows "marker_kept u w (snd (resetConversation v w))"
proof -
  have "preserves (\<lambda>w. (sheets_client w, Date_parse w)) (setSetting (''reset:'' @ v) x)" for x
    by (rule preserves_setSetting) simp_all
  from preservesD [OF this, of _ w]
  have a: "sheets_client (snd (resetConversation v w)) = sheets_client w"
    "Date_parse (snd (resetConversation v w)) = Date_parse w"
    by (simp_all add: resetConversation_run)
  have s: "settings (snd (ensureHeaders w)) = settings w"
    by (rule preservesD) (rule preserves_ensureHeaders, simp_all)
  from assms have "settings (snd (resetConversation v w)) = settings w"
    by (auto simp: resetConversation_run setSetting_run Let_def s marker_written_def)
  with a show ?thesis by (simp add: marker_kept_def)
qed

lemma cutoff_from_reset:
  assumes inv: "cutoff_from u T w w1"
    and ok: "marker_written w1 \<Longrightarrow>
       T \<le> clock w1 \<and> clock w1 \<noteq> 0 \<and> toISOString w1 (clock w1) \<noteq> [] \<and>
       Date_parse w1 (toISOString w1 (clock w1)) = Some (clock w1)"
  shows "cutoff_from u T w (snd (resetConversation u w1))"
proof (cases "marker_written w1")
  case False
  from cutoff_from_kept [OF inv resetConversation_unwritten [OF False]] show ?thesis .
next
  case True
  then have h: "sheets_client w1" "succeeds 0 (snd (ensureHeaders w1))"
    "succeeds 1 (snd (ensureHeaders w1))"
    by (simp_all add: marker_written_def)
  from inv have d: "Date_parse w1 = Date_parse w" by (simp add: cutoff_from_def)
  from resetConversation_marker [OF h, of u] ok [OF True] d show ?thesis
    by (simp add: cutoff_from_def)
qed

lemma cutoff_from_run:
  "cutoff_from u T w w1 \<Longrightarrow> later_resets_ok u T es w1 \<Longrightarrow> cutoff_from u T w (run_events es w1)"
proof (induction es arbitrary: w1)
  case Nil
  then show ?case by simp
next
  case (Cons e es)
  have "cutoff_from u T w (after e w1)"
  proof (cases "e = Reset u")
    case True
    with Cons.prems(2) have "marker_written w1 \<Longrightarrow>
       T \<le> clock w1 \<and> clock w1 \<noteq> 0 \<and> toISOString w1 (clock w1) \<noteq> [] \<and>
       Date_parse w1 (toISOString w1 (clock w1)) = Some (clock w1)"
      by simp
    from cutoff_from_reset [OF Cons.prems(1) this] True show ?thesis by simp
  next
    case False
    from cutoff_from_kept [OF Cons.prems(1) marker_kept_after [OF False]] show ?thesis .
  qed
  moreover from Cons.prems(2) have "later_resets_ok u T es (after e w1)" by simp
  ultimately show ?case using Cons.IH by simp
qed

lemma qualifies_after_marker:
  assumes "Date_parse w2 = Date_parse w" "Date_parse w s = Some T'" "T' \<noteq> 0" "T \<le> T'"
    "qualifies w2 u (Some T') r"
  shows "\<exists>t. Date_parse w (to_string (at r 0)) = Some t \<and> T < t"
  using assms by (auto simp: qualifies_def falsy_num_def js_gt_def split: option.splits)

text \<open>
  C3, as the code has it. Let \<open>resetConversation(u)\<close> run at the instant \<open>T\<close> of the
  clock, in a world with a store client where the two requests of the marker write (the
  read of the settings and the update or append, after the header check) succeed, \<open>T\<close> is
  not the instant 0 and the runtime parses the ISO string it writes for \<open>T\<close> back to \<open>T\<close>.
  Then after any later events (time passing, requests failing, appends, handled messages,
  reads, resets of any user, \<open>u\<close> included), every call \<open>getRecentConversation(u, n)\<close>
  whose read of the marker succeeds returns only turns of rows of \<open>u\<close> whose timestamp
  parses to an instant after \<open>T\<close>, for every \<open>n\<close>. Of a later reset of \<open>u\<close> that writes
  its marker the statement asks what it asks of the first: a clock that is not before \<open>T\<close>
  and not 0, and an ISO string that parses back; a later reset whose write fails leaves
  the cutoff where it was.
\<close>

theorem reset_hides_earlier_turns:
  assumes "sheets_client w"
    and "succeeds 0 (snd (ensureHeaders w))" and "succeeds 1 (snd (ensureHeaders w))"
    and "clock w \<noteq> 0"
    and "toISOString w (clock w) \<noteq> []"
    and "Date_parse w (toISOString w (clock w)) = Some (clock w)"
    and "later_resets_ok u (clock w) es (snd (resetConversation u w))"
    and "succeeds 0 (run_events es (snd (resetConversation u w)))"
  shows "\<exists>rs. fst (getRecentConversation u n (run_events es (snd (resetConversation u w)))) =
                Inr (map turn_of_row rs) \<and>
              set rs \<subseteq> set (messages (run_events es (snd (resetConversation u w)))) \<and>
              (\<forall>r\<in>set rs. at r 1 = Some u \<and>
                 (\<exists>t. Date_parse w (to_string (at r 0)) = Some t \<and> clock w < t))"
proof -
  let ?w1 = "snd (resetConversation u w)"
  let ?w2 = "run_events es ?w1"
  from resetConversation_marker [OF assms(1-3), of u] assms(4-6)
  have "cutoff_from u (clock w) w ?w1" by (simp add: cutoff_from_def)
  from cutoff_from_run [OF this assms(7)]
  obtain s T' where w2: "sheets_client ?w2" "Date_parse ?w2 = Date_parse w"
    and m: "lookup_setting (''reset:'' @ u) (settings ?w2) = Some s" "s \<noteq> []"
      "Date_parse w s = Some T'" "clock w \<le> T'" "T' \<noteq> 0"
    by (auto simp: cutoff_from_def)
  from m w2(2) have t: "resetTime_of ?w2 (Some s) = Some T'"
    by (simp add: resetTime_of_def falsy_def to_string_def)
  show ?thesis
  proof (cases "succeeds 1 ?w2")
    case True
    let ?rs = "recentRows ?w2 u n (Some T') (messages ?w2)"
    from True w2 assms(8) t m(1) have res: "fst (getRecentConversation u n ?w2) = Inr (map turn_of_row ?rs)"
      by (simp add: getRecentConversation_result)
    have sub: "set ?rs \<subseteq> set (filter (qualifies ?w2 u (Some T')) (messages ?w2))"
      by (rule recentRows_subset)
    then have "set ?rs \<subseteq> set (messages ?w2)" by auto
    moreover have "at r 1 = Some u \<and> (\<exists>t. Date_parse w (to_string (at r 0)) = Some t \<and> clock w < t)"
      if "r \<in> set ?rs" for r
    proof -
      from that sub have q: "qualifies ?w2 u (Some T') r" by auto
      then have "at r 1 = Some u" by (simp add: qualifies_def)
      with qualifies_after_marker [OF w2(2) m(3) m(5) m(4) q] show ?thesis by simp
    qed
    ultimately show ?thesis using res by blast
  next
    case False
    then have "fst (getRecentConversation u n ?w2) = Inr (map turn_of_row [])"
      by (simp add: getRecentConversation_result)
    then show ?thesis by (intro exI [of _ "[]"]) simp
  qed
qed

theorem reset_hides_earlier_turns_witness:
  "sheets_client returning_customer \<and>
   succeeds 0 (snd (ensureHeaders returning_customer)) \<and>
   succeeds 1 (snd (ensureHeaders returning_customer)) \<and>
   clock returning_customer = 1704067260000 \<and>
   toISOString returning_customer (clock returning_customer) = ''2024-01-01T00:01:00.000Z'' \<and>
   Date_parse returning_customer ''2024-01-01T00:01:00.000Z'' = Some 1704067260000 \<and>
   later_resets_ok ''55501'' 1704067260000
     [Tick 1704067320000 [], Handle ''55501'' ''Thanks'' (Some ''wamid.2''),
      Tick 1704067380000 [None, None, None, None, None, None,
        Some (RequestError (Some 503) ''The service is unavailable'')],
      Reset ''55501'',
      Tick 1704067440000 [], Reset ''55501'',
      Tick 1704067500000 [], Handle ''55501'' ''Bye'' (Some ''wamid.3'')]
     (snd (resetConversation ''55501'' returning_customer)) \<and>
   succeeds 0 reset_twice \<and>
   (\<exists>rs. fst (getRecentConversation ''55501'' 12 reset_twice) = Inr (map turn_of_row rs) \<and>
         set rs \<subseteq> set (messages reset_twice)) \<and>
   fst (getRecentConversation ''55501'' 12 reset_twice) =
     Inr [\<lparr>role = ''user'', content = ''Bye''\<rparr>,
          \<lparr>role = ''assistant'', content = ''We are open 9 to 5.''\<rparr>]"
proof -
  let ?es = "[Tick 1704067320000 [], Handle ''55501'' ''Thanks'' (Some ''wamid.2''),
                 Tick 1704067380000 [None, None, None, None, None, None,
                   Some (RequestError (Some 503) ''The service is unavailable'')],
                 Reset ''55501'',
                 Tick 1704067440000 [], Reset ''55501'',
                 Tick 1704067500000 [], Handle ''55501'' ''Bye'' (Some ''wamid.3'')]"
  have a: "sheets_client returning_customer" "clock returning_customer = 1704067260000"
    by (simp_all add: returning_customer_def shop_def)
  have b: "succeeds 0 (snd (ensureHeaders returning_customer))"
    "succeeds 1 (snd (ensureHeaders returning_customer))"
    by code_simp+
  have c: "toISOString returning_customer (clock returning_customer) = ''2024-01-01T00:01:00.000Z''"
    by code_simp
  have d: "Date_parse returning_customer ''2024-01-01T00:01:00.000Z'' = Some 1704067260000"
    by code_simp
  have e: "later_resets_ok ''55501'' 1704067260000 ?es (snd (resetConversation ''55501'' returning_customer))"
    by code_simp
  have f: "succeeds 0 reset_twice" by code_simp
  have g: "fst (getRecentConversation ''55501'' 12 reset_twice) =
     Inr [\<lparr>role = ''user'', content = ''Bye''\<rparr>,
          \<lparr>role = ''assistant'', content = ''We are open 9 to 5.''\<rparr>]"
    by code_simp
  have h: "clock returning_customer \<noteq> 0" "toISOString returning_customer (clock returning_customer) \<noteq> []"
    "Date_parse returning_customer (toISOString returning_customer (clock returning_customer)) =
       Some (clock returning_customer)"
    "later_resets_ok ''55501'' (clock returning_customer) ?es (snd (resetConversation ''55501'' returning_customer))"
    "succeeds 0 (run_events ?es (snd (resetConversation ''55501'' returning_customer)))"
    using a c d e f by (simp_all add: reset_twice_def)
  from reset_hides_earlier_turns [OF a(1) b h(1-5), of 12]
  have "\<exists>rs. fst (getRecentConversation ''55501'' 12 reset_twice) = Inr (map turn_of_row rs) \<and>
         set rs \<subseteq> set (messages reset_twice) \<and>
         (\<forall>r\<in>set rs. at r 1 = Some ''55501'' \<and>
            (\<exists>t. Date_parse returning_customer (to_string (at r 0)) = Some t \<and> 1704067260000 < t))"
    by (simp only: reset_twice_def a(2))
  then have "\<exists>rs. fst (getRecentConversation ''55501'' 12 reset_twice) = Inr (map turn_of_row rs) \<and>
         set rs \<subseteq> set (messages reset_twice)"
    by blast
  with a b c d e f g show ?thesis by (intro conjI)
qed

text \<open>
  When the read of the marker is rejected, \<open>getSetting\<close> answers as if there were no
  marker and the cutoff is not applied: the two turns stored a minute before the reset
  come back.
\<close>

theorem reset_hides_earlier_turns_counterexample:
  "clock returning_customer = 1704067260000 \<and>
   lookup_setting ''reset:55501'' (settings marker_read_outage) = Some ''2024-01-01T00:01:00.000Z'' \<and>
   messages marker_read_outage =
     [[''2024-01-01T00:00:00.000Z'', ''55501'', ''user'', ''What are your hours?'', ''wamid.1''],
      [''2024-01-01T00:00:00.000Z'', ''55501'', ''assistant'', ''We are open 9 to 5.'', []]] \<and>
   Date_parse marker_read_outage ''2024-01-01T00:00:00.000Z'' = Some 1704067200000 \<and>
   fst (getRecentConversation ''55501'' 12 marker_read_outage) =
     Inr [\<lparr>role = ''user'', content = ''What are your hours?''\<rparr>,
          \<lparr>role = ''assistant'', content = ''We are open 9 to 5.''\<rparr>]"
  by code_simp

section \<open>Message ids stay on user turns\<close>

lemma keeps_bind: "keeps P m \<Longrightarrow> (\<And>x. keeps P (f x)) \<Longrightarrow> keeps P (bind m f)"
  unfolding keeps_def
proof (intro allI impI)
  fix w
  assume m: "\<forall>w. P w \<longrightarrow> P (snd (m w))" and f: "\<And>x. \<forall>w. P w \<longrightarrow> P (snd (f x w))" and w: "P w"
  obtain r w1 where 1: "m w = (r, w1)" by (cases "m w")
  with m w have 2: "P w1" by (metis snd_conv)
  show "P (snd (bind m f w))"
  proof (cases r)
    case (Inl e)
    with 1 2 show ?thesis by (simp add: bind_def)
  next
    case (Inr x)
    with 1 2 f [of x] show ?thesis by (simp add: bind_def)
  qed
qed

lemma keeps_try_catch: "keeps P m \<Longrightarrow> (\<And>e. keeps P (h e)) \<Longrightarrow> keeps P (try_catch m h)"
  unfolding keeps_def
proof (intro allI impI)
  fix w
  assume m: "\<forall>w. P w \<longrightarrow> P (snd (m w))" and h: "\<And>e. \<forall>w. P w \<longrightarrow> P (snd (h e w))" and w: "P w"
  obtain r w1 where 1: "m w = (r, w1)" by (cases "m w")
  with m w have 2: "P w1" by (metis snd_conv)
  show "P (snd (try_catch m h w))"
  proof (cases r)
    case (Inl e)
    with 1 2 h [of e] show ?thesis by (simp add: try_catch_def)
  next
    case (Inr x)
    with 1 2 show ?thesis by (simp add: try_catch_def)
  qed
qed

lemma keeps_if: "keeps P m \<Longrightarrow> keeps P n \<Longrightarrow> keeps P (if c then m else n)"
  by simp

lemma keeps_ret: "keeps P (ret x)"
  by (simp add: keeps_def ret_def)

lemma keeps_preserves: "preserves messages m \<Longrightarrow> keeps ids_on_user_turns m"
  by (simp add: keeps_def preserves_def ids_on_user_turns_def)

lemma keeps_appendMessage:
  "rl = ''user'' \<or> msgId = None \<Longrightarrow> keeps ids_on_user_turns (appendMessage waId rl text msgId)"
proof -
  assume a: "rl = ''user'' \<or> msgId = None"
  have m: "messages (snd (ensureHeaders w)) = messages w" for w
    by (rule preservesD) (rule preserves_ensureHeaders, simp_all)
  from a show ?thesis
    by (auto simp: keeps_def ids_on_user_turns_def appendMessage_run Let_def m at_def str_or_def)
qed

text \<open>
  The handler writes a message id only on the user turn it appends: when every stored id
  sits on a user turn, this is still so after a message has been handled. In such a store
  a successful \<open>hasMessage\<close> answers whether a user turn carries the id.
\<close>

lemma handleUserMessage_keeps_ids:
  "keeps ids_on_user_turns (handleUserMessage services number message msgId)"
  unfolding handleUserMessage_def handleUserMessage_try_def services_sel
  by (intro keeps_bind keeps_try_catch keeps_if keeps_ret keeps_appendMessage keeps_preserves
      preserves_logger preserves_hasMessage preserves_getRecentConversation
      preserves_getAllSettings preserves_generateOpenAIResponse preserves_sendMessage)
     simp_all

lemma hasMessage_user_turn:
  assumes "ids_on_user_turns w" and "m \<noteq> []" and "sheets_client w" and "succeeds 0 w"
  shows "fst (hasMessage m w) =
           Inr (\<exists>r\<in>set (messages w). at r 2 = Some ''user'' \<and> at r 4 = Some m)"
proof -
  have "at r 2 = Some ''user''" if "r \<in> set (messages w)" "at r 4 = Some m" for r
    using that assms(1,2) by (auto simp: ids_on_user_turns_def list_all_iff str_or_def)
  then have "(\<exists>r\<in>set (messages w). at r 4 = Some m) \<longleftrightarrow>
             (\<exists>r\<in>set (messages w). at r 2 = Some ''user'' \<and> at r 4 = Some m)"
    by blast
  with assms show ?thesis by (simp add: hasMessage_run)
qed

end
